theory Spec2Isabelle
  imports Complex_Main "HOL-Library.AList"
begin

section \<open>Conventions of the embedding\<close>

text \<open>
  The development embeds the threshold detection, state machine and trigger coordination
  code of the four monitoring scripts
  (\<^verbatim>\<open>context-window-monitor.py\<close>, \<^verbatim>\<open>credit-monitor.py\<close>,
  \<^verbatim>\<open>session-duration-monitor.py\<close>, \<^verbatim>\<open>monitoring-coordinator.py\<close>).

  \<^item> A Python \<^verbatim>\<open>str\<close> is a \<^typ>\<open>string\<close>; every \<^typ>\<open>char\<close> stands for one code point
    in the range U+0000 .. U+00FF, so that \<^verbatim>\<open>len\<close> is \<^const>\<open>length\<close>.
  \<^item> A Python \<^verbatim>\<open>float\<close> is a \<^typ>\<open>real\<close>: rounding is not part of the model. The finite
    range of doubles is modelled where a text can reach it, in the division of two integers
    read from the text (\<open>true_div\<close>); the counters and fractions of a stored state are of
    the size the monitors produce. A Python \<^verbatim>\<open>int\<close> is unbounded, as in the source.
  \<^item> \<^verbatim>\<open>datetime.now()\<close> is an argument of the operation that reads the clock; a point
    in time is a number of seconds.
  \<^item> A monitor object is a record; a method takes the record and returns the updated one.
    The state dictionary of a monitor is a record with the keys of its default state.
  \<^item> A dictionary that is built and returned as a result is an association list of
    \<open>pyval\<close>; an empty one is falsy, as in Python.
  \<^item> \<^verbatim>\<open>print\<close> is not modelled; \<^verbatim>\<open>input\<close> reads the head of a list of pending lines and
    raises \<^verbatim>\<open>EOFError\<close> on the empty list.
\<close>

type_synonym timestamp = real

section \<open>Characters and the regular expressions of the monitors\<close>

definition is_digit :: "char \<Rightarrow> bool" where
  "is_digit c = (48 \<le> (of_char c :: nat) \<and> (of_char c :: nat) \<le> 57)"

text \<open>Unicode white space below U+0100, the characters \<^verbatim>\<open>\s\<close> matches in a \<^verbatim>\<open>str\<close> pattern.\<close>

definition is_space :: "char \<Rightarrow> bool" where
  "is_space c = ((of_char c :: nat) \<in> {9, 10, 11, 12, 13, 28, 29, 30, 31, 32, 133, 160})"

definition upper_chars :: "char list" where
  "upper_chars = ''ABCDEFGHIJKLMNOPQRSTUVWXYZ'' @
     [CHR 0xC0, CHR 0xC1, CHR 0xC2, CHR 0xC3, CHR 0xC4, CHR 0xC5, CHR 0xC6, CHR 0xC7,
      CHR 0xC8, CHR 0xC9, CHR 0xCA, CHR 0xCB, CHR 0xCC, CHR 0xCD, CHR 0xCE, CHR 0xCF,
      CHR 0xD0, CHR 0xD1, CHR 0xD2, CHR 0xD3, CHR 0xD4, CHR 0xD5, CHR 0xD6,
      CHR 0xD8, CHR 0xD9, CHR 0xDA, CHR 0xDB, CHR 0xDC, CHR 0xDD, CHR 0xDE]"

definition lower_chars :: "char list" where
  "lower_chars = ''abcdefghijklmnopqrstuvwxyz'' @
     [CHR 0xE0, CHR 0xE1, CHR 0xE2, CHR 0xE3, CHR 0xE4, CHR 0xE5, CHR 0xE6, CHR 0xE7,
      CHR 0xE8, CHR 0xE9, CHR 0xEA, CHR 0xEB, CHR 0xEC, CHR 0xED, CHR 0xEE, CHR 0xEF,
      CHR 0xF0, CHR 0xF1, CHR 0xF2, CHR 0xF3, CHR 0xF4, CHR 0xF5, CHR 0xF6,
      CHR 0xF8, CHR 0xF9, CHR 0xFA, CHR 0xFB, CHR 0xFC, CHR 0xFD, CHR 0xFE]"

definition lower_char :: "char \<Rightarrow> char" where
  "lower_char c = (case map_of (zip upper_chars lower_chars) c of None \<Rightarrow> c | Some l \<Rightarrow> l)"

text \<open>\<^verbatim>\<open>str.lower()\<close>\<close>

definition lower :: "string \<Rightarrow> string" where
  "lower s = map lower_char s"

text \<open>\<^verbatim>\<open>needle in haystack\<close> on strings.\<close>

fun contains :: "string \<Rightarrow> string \<Rightarrow> bool" where
  "contains [] needle = (needle = [])"
| "contains (c # cs) needle = (take (length needle) (c # cs) = needle \<or> contains cs needle)"

text \<open>
  \<^verbatim>\<open>str.isdigit()\<close> on the strings the monitors test: a whole match of a pattern without
  groups, or the content of a group \<^verbatim>\<open>(\d+)\<close>. \<^verbatim>\<open>int(s)\<close> for a string of decimal digits.
\<close>

definition isdigit :: "string \<Rightarrow> bool" where
  "isdigit s = (s \<noteq> [] \<and> list_all is_digit s)"

definition int_of_digits :: "string \<Rightarrow> int" where
  "int_of_digits s = foldl (\<lambda>n c. 10 * n + (int (of_char c) - 48)) 0 s"

text \<open>
  The patterns of the source use literals, \<^verbatim>\<open>\d\<close>, \<^verbatim>\<open>\s\<close>, \<^verbatim>\<open>.\<close>, a bracket set, the
  greedy quantifiers \<^verbatim>\<open>*\<close> and \<^verbatim>\<open>+\<close> on a single character class, \<^verbatim>\<open>?\<close>, alternation and
  groups. All of them are compiled with \<^verbatim>\<open>re.IGNORECASE\<close>.
\<close>

datatype cls = Lit char | Digit | Space | AnyChar | OneOf "char list"

datatype rx =
    Atom cls
  | Many nat cls
  | Opt rx
  | Seq rx rx
  | Alt rx rx
  | Group nat rx

fun cls_ok :: "cls \<Rightarrow> char \<Rightarrow> bool" where
  "cls_ok (Lit p) c = (lower_char c = lower_char p)"
| "cls_ok Digit c = is_digit c"
| "cls_ok Space c = is_space c"
| "cls_ok AnyChar c = (c \<noteq> CHR 0x0A)"
| "cls_ok (OneOf ps) c = (lower_char c \<in> set (map lower_char ps))"

type_synonym caps = "(nat \<times> string) list"

text \<open>
  The backtracking matcher. \<open>matches r s cs\<close> lists, in the order in which the
  backtracking search of \<^verbatim>\<open>re\<close> tries them, the ways in which \<open>r\<close> matches a prefix
  of \<open>s\<close>: the unconsumed rest with the groups captured so far. A greedy quantifier
  tries the longest run first; an alternation tries its left branch first.
\<close>

primrec matches :: "rx \<Rightarrow> string \<Rightarrow> caps \<Rightarrow> (string \<times> caps) list" where
  "matches (Atom k) s cs =
     (case s of [] \<Rightarrow> [] | c # t \<Rightarrow> if cls_ok k c then [(t, cs)] else [])"
| "matches (Many n k) s cs =
     map (\<lambda>i. (drop i s, cs)) (rev [n ..< Suc (length (takeWhile (cls_ok k) s))])"
| "matches (Opt r) s cs = matches r s cs @ [(s, cs)]"
| "matches (Seq r1 r2) s cs = concat (map (\<lambda>(t, cs'). matches r2 t cs') (matches r1 s cs))"
| "matches (Alt r1 r2) s cs = matches r1 s cs @ matches r2 s cs"
| "matches (Group g r) s cs =
     map (\<lambda>(t, cs'). (t, (g, take (length s - length t) s) # cs')) (matches r s cs)"

primrec ngroups :: "rx \<Rightarrow> nat" where
  "ngroups (Atom k) = 0"
| "ngroups (Many n k) = 0"
| "ngroups (Opt r) = ngroups r"
| "ngroups (Seq r1 r2) = ngroups r1 + ngroups r2"
| "ngroups (Alt r1 r2) = ngroups r1 + ngroups r2"
| "ngroups (Group g r) = Suc (ngroups r)"

definition group :: "caps \<Rightarrow> nat \<Rightarrow> string" where
  "group cs g = (case map_of cs g of None \<Rightarrow> [] | Some x \<Rightarrow> x)"

text \<open>\<^verbatim>\<open>re.search\<close>: the first match at the leftmost position that has one.\<close>

fun search :: "rx \<Rightarrow> string \<Rightarrow> (string \<times> caps) option" where
  "search r [] = (case matches r [] [] of [] \<Rightarrow> None | m # _ \<Rightarrow> Some m)"
| "search r (c # t) = (case matches r (c # t) [] of [] \<Rightarrow> search r t | m # _ \<Rightarrow> Some m)"

text \<open>
  \<^verbatim>\<open>re.findall\<close>: the non-overlapping matches from left to right. An item is the whole
  match for a pattern without groups, the group for a pattern with one group, and the
  tuple of the groups otherwise (a tuple has at least two components).
\<close>

datatype fmatch = MStr string | MTup string "string list"

definition item :: "rx \<Rightarrow> string \<Rightarrow> string \<times> caps \<Rightarrow> fmatch" where
  "item r s m =
     (case ngroups r of
        0 \<Rightarrow> MStr (take (length s - length (fst m)) s)
      | Suc 0 \<Rightarrow> MStr (group (snd m) 1)
      | Suc (Suc n) \<Rightarrow> MTup (group (snd m) 1) (map (group (snd m)) [2 ..< n + 3]))"

text \<open>
  \<open>skip\<close> counts the characters that the previous match still covers; after an empty
  match the scan moves on by one character.
\<close>

fun findall_from :: "rx \<Rightarrow> nat \<Rightarrow> string \<Rightarrow> fmatch list" where
  "findall_from r skip [] =
     (if skip = 0 then (case matches r [] [] of [] \<Rightarrow> [] | m # _ \<Rightarrow> [item r [] m]) else [])"
| "findall_from r skip (c # t) =
     (if skip = 0
      then (case matches r (c # t) [] of
              [] \<Rightarrow> findall_from r 0 t
            | m # _ \<Rightarrow> item r (c # t) m # findall_from r (length (c # t) - length (fst m) - 1) t)
      else findall_from r (skip - 1) t)"

definition findall :: "rx \<Rightarrow> string \<Rightarrow> fmatch list" where
  "findall r s = findall_from r 0 s"

text \<open>Pattern syntax: a literal word, a sequence, an alternation.\<close>

definition str :: "string \<Rightarrow> rx" where
  "str w = foldr (\<lambda>c r. Seq (Atom (Lit c)) r) (butlast w) (Atom (Lit (last w)))"

definition seqs :: "rx list \<Rightarrow> rx" where
  "seqs rs = foldr Seq (butlast rs) (last rs)"

definition alts :: "rx list \<Rightarrow> rx" where
  "alts rs = foldr Alt (butlast rs) (last rs)"


section \<open>Result dictionaries and the package generator\<close>

datatype pyval =
    PNone
  | PBool bool
  | PInt int
  | PFloat real
  | PStr string
  | PList "pyval list"
  | PDict "(string \<times> pyval) list"

type_synonym pydict = "(string \<times> pyval) list"

text \<open>\<^verbatim>\<open>d.get(k)\<close>, \<^verbatim>\<open>d.get(k, default)\<close>, \<^verbatim>\<open>d.update(other)\<close> and the truth value of an object.\<close>

definition dict_get :: "pydict \<Rightarrow> string \<Rightarrow> pyval" where
  "dict_get d k = (case map_of d k of None \<Rightarrow> PNone | Some v \<Rightarrow> v)"

definition dict_get_default :: "pydict \<Rightarrow> string \<Rightarrow> pyval \<Rightarrow> pyval" where
  "dict_get_default d k dflt = (case map_of d k of None \<Rightarrow> dflt | Some v \<Rightarrow> v)"

definition dict_update :: "pydict \<Rightarrow> pydict \<Rightarrow> pydict" where
  "dict_update d other = foldl (\<lambda>acc (k, v). AList.update k v acc) d other"

fun truthy :: "pyval \<Rightarrow> bool" where
  "truthy PNone = False"
| "truthy (PBool b) = b"
| "truthy (PInt i) = (i \<noteq> 0)"
| "truthy (PFloat x) = (x \<noteq> 0)"
| "truthy (PStr s) = (s \<noteq> [])"
| "truthy (PList xs) = (xs \<noteq> [])"
| "truthy (PDict d) = (d \<noteq> [])"

datatype package_type = LIGHT | FULL | COMPLEX

record package_request =
  req_type :: package_type
  trigger_reason :: string
  auto_created :: bool
  conversation_exchanges :: "nat option"

text \<open>
  An exception that crosses a method: \<^verbatim>\<open>EOFError\<close> from \<^verbatim>\<open>input\<close>, an exception raised
  by the package generator, with its message, and the exceptions of integer conversion and
  division in the usage estimate. \<open>error_str\<close> is \<^verbatim>\<open>str(e)\<close>; \<^verbatim>\<open>ValueError\<close> carries the
  number of digits that its message names.
\<close>

datatype py_error =
    EOFError
  | GeneratorError string
  | ValueError nat
  | OverflowError
  | ZeroDivisionError

definition error_str :: "py_error \<Rightarrow> string" where
  "error_str e =
     (case e of
        EOFError \<Rightarrow> ''EOF when reading a line''
      | GeneratorError msg \<Rightarrow> msg
      | ValueError n \<Rightarrow> ''Exceeds the limit (4300 digits) for integer string conversion''
      | OverflowError \<Rightarrow> ''integer division result too large for a float''
      | ZeroDivisionError \<Rightarrow> ''division by zero'')"

text \<open>
  \<^verbatim>\<open>EnhancedPackageGenerator.create_enhanced_package\<close> writes the package to disk and is
  not part of the monitors: a monitor holds it as a collaborator. Here it is a parameter,
  a function from the request and the pending input lines (it asks for a title when the
  package is not created automatically) to the dictionary it returns, or the exception
  it raises, and the input lines left. The metadata files that a monitor rewrites after
  a package was created are on disk and not modelled.
\<close>

type_synonym generator = "package_request \<Rightarrow> string list \<Rightarrow> (py_error + pydict) \<times> string list"

definition generator_not_available :: pydict where
  "generator_not_available = [(''error'', PStr ''Enhanced package generator not available'')]"

definition strip :: "string \<Rightarrow> string" where
  "strip s = rev (dropWhile is_space (rev (dropWhile is_space s)))"

section \<open>Context window monitor\<close>

record context_state =
  last_check :: "timestamp option"
  warning_triggered :: bool
  base_context_created :: bool
  base_context_snapshot :: pyval
  base_context_timestamp :: "timestamp option"
  critical_triggered :: bool
  estimated_context_usage :: real
  conversation_exchanges_since_base :: nat

record context_monitor =
  context_monitoring :: bool
  cw_state :: context_state
  max_context_estimate :: nat
  warning_threshold :: real
  critical_threshold :: real
  cw_generator :: "generator option"

definition cw_default_state :: context_state where
  "cw_default_state =
     \<lparr> last_check = None, warning_triggered = False, base_context_created = False,
       base_context_snapshot = PNone, base_context_timestamp = None,
       critical_triggered = False, estimated_context_usage = 0.0,
       conversation_exchanges_since_base = 0 \<rparr>"

text \<open>
  \<^verbatim>\<open>ContextWindowMonitor.__init__\<close>: the configuration and the state come from the files
  (with the defaults for what a file does not give) and are arguments here, as is the
  generator class, absent when its import failed.
\<close>

definition cw_init :: "bool \<Rightarrow> context_state \<Rightarrow> generator option \<Rightarrow> context_monitor" where
  "cw_init monitoring st gen =
     \<lparr> context_monitoring = monitoring, cw_state = st, max_context_estimate = 200000,
       warning_threshold = 0.90, critical_threshold = 0.95,
       cw_generator = (case gen of None \<Rightarrow> None | Some g \<Rightarrow> Some g) \<rparr>"

definition cw_save_state :: "timestamp \<Rightarrow> context_monitor \<Rightarrow> context_monitor" where
  "cw_save_state now m = m\<lparr>cw_state := (cw_state m)\<lparr>last_check := Some now\<rparr>\<rparr>"

definition context_indicators :: "rx list" where
  "context_indicators =
     [ seqs [Group 1 (Many 1 Digit), Many 0 Space,
             alts [Seq (str ''token'') (Opt (str ''s'')), Seq (str ''word'') (Opt (str ''s''))],
             Many 0 Space, alts [str ''used'', str ''remaining'', str ''left'']],
       seqs [str ''context'', Many 0 Space, alts [str ''window'', str ''size'', str ''limit''],
             Many 0 Space, str '':'', Many 0 Space, Group 1 (Many 1 Digit)],
       seqs [Group 1 (Many 1 Digit), Many 0 Space, alts [str ''/'', str ''of''], Many 0 Space,
             Group 2 (Many 1 Digit), Many 0 Space,
             alts [Seq (str ''token'') (Opt (str ''s'')), str ''context'']],
       seqs [Group 1 (Many 1 Digit), str ''%'', Many 0 Space,
             alts [str ''context'', str ''usage'', str ''capacity'', str ''used'']],
       seqs [str ''context'', Many 0 Space, str '':'', Many 0 Space,
             Group 1 (Many 1 Digit), str ''%''],
       alts [str ''compacting'', str ''summarizing'', str ''truncating''],
       seqs [str ''context'', Many 0 Space, Opt (Seq (str ''window'') (Many 0 Space)),
             alts [str ''full'', str ''limit'', str ''exceeded'']],
       seqs [str ''reducing'', Many 0 Space,
             alts [str ''context'',
                   seqs [str ''conversation'', Many 0 Space, str ''history'']]] ]"

text \<open>
  \<^verbatim>\<open>int(s)\<close> on a string of decimal digits raises \<^verbatim>\<open>ValueError\<close> when the string has more
  than 4300 digits (the default of \<^verbatim>\<open>sys.int_info.default_max_str_digits\<close> in CPython 3.11
  and later). The division \<^verbatim>\<open>a / b\<close> of two integers raises \<^verbatim>\<open>OverflowError\<close> when the
  quotient, rounded to the nearest double, is beyond the largest one, that is when it is at
  least \<open>2 ^ 1024 - 2 ^ 970\<close>; otherwise the model takes the exact quotient.
\<close>

definition py_int :: "string \<Rightarrow> py_error + int" where
  "py_int s = (if length s > 4300 then Inl (ValueError (length s)) else Inr (int_of_digits s))"

definition true_div :: "int \<Rightarrow> int \<Rightarrow> py_error + real" where
  "true_div a b =
     (if b = 0 then Inl ZeroDivisionError
      else if real_of_int a / real_of_int b \<ge> 2 ^ 1024 - 2 ^ 970 then Inl OverflowError
      else Inr (real_of_int a / real_of_int b))"

text \<open>
  The three places of method 1 that read one number as a percentage:
  \<^verbatim>\<open>percentage = int(a)\<close>, then \<^verbatim>\<open>return percentage / 100.0\<close> if it is at most 100. The
  result is the exception, the value returned, or \<open>None\<close> when the loop goes on.
\<close>

definition percentage_of :: "string \<Rightarrow> py_error + real option" where
  "percentage_of a =
     (case py_int a of
        Inl e \<Rightarrow> Inl e
      | Inr percentage \<Rightarrow>
          Inr (if percentage \<le> 100 then Some (real_of_int percentage / 100.0) else None))"

text \<open>
  The inner loop of method 1 over the matches of one pattern: the exception that leaves
  it, the value it returns, or \<open>None\<close> when the loop ends without a \<^verbatim>\<open>return\<close>.
\<close>

fun scan_matches :: "fmatch list \<Rightarrow> py_error + real option" where
  "scan_matches [] = Inr None"
| "scan_matches (MTup a [b] # ms) =
     (if isdigit b
      then (case (if isdigit a then py_int a else Inr 0) of
              Inl e \<Rightarrow> Inl e
            | Inr used \<Rightarrow>
                (case py_int b of
                   Inl e \<Rightarrow> Inl e
                 | Inr total' \<Rightarrow>
                     if total' > 0
                     then (case true_div used total' of
                             Inl e \<Rightarrow> Inl e
                           | Inr ratio \<Rightarrow> Inr (Some (min ratio 1.0)))
                     else scan_matches ms))
      else if isdigit a
      then (case percentage_of a of Inr None \<Rightarrow> scan_matches ms | returned \<Rightarrow> returned)
      else scan_matches ms)"
| "scan_matches (MTup a bs # ms) =
     (if isdigit a
      then (case percentage_of a of Inr None \<Rightarrow> scan_matches ms | returned \<Rightarrow> returned)
      else scan_matches ms)"
| "scan_matches (MStr a # ms) =
     (if isdigit a
      then (case percentage_of a of Inr None \<Rightarrow> scan_matches ms | returned \<Rightarrow> returned)
      else scan_matches ms)"

text \<open>The outer loop of method 1 over the patterns.\<close>

fun scan_indicators :: "rx list \<Rightarrow> string \<Rightarrow> py_error + real option" where
  "scan_indicators [] text = Inr None"
| "scan_indicators (p # ps) text =
     (case scan_matches (findall p text) of
        Inr None \<Rightarrow> scan_indicators ps text
      | returned \<Rightarrow> returned)"

definition estimate_context_usage :: "context_monitor \<Rightarrow> string \<Rightarrow> py_error + real" where
  "estimate_context_usage m conversation_text =
     (case scan_indicators context_indicators conversation_text of
        Inl e \<Rightarrow> Inl e
      | Inr (Some v) \<Rightarrow> Inr v
      | Inr None \<Rightarrow>
          (let char_count = length conversation_text;
               estimated_tokens = real char_count / 4;
               estimated_usage = estimated_tokens / real (max_context_estimate m);
               exchanges = conversation_exchanges_since_base (cw_state m);
               base_usage = estimated_context_usage (cw_state m);
               exchange_increment = real exchanges * 0.015;
               final_estimate = max estimated_usage (base_usage + exchange_increment)
           in Inr (min final_estimate 1.0)))"

text \<open>The running floor of the exchange count heuristic.\<close>

definition exchange_floor :: "context_monitor \<Rightarrow> real" where
  "exchange_floor m =
     estimated_context_usage (cw_state m)
       + real (conversation_exchanges_since_base (cw_state m)) * 0.015"



text \<open>
  The result of \<^verbatim>\<open>check_context_thresholds\<close>. Its \<^verbatim>\<open>current_percentage\<close> is
  \<open>current_usage\<close> as text, and a message is kept as its kind and the usage it prints.
\<close>

datatype context_message = CriticalDeltaMessage real | CriticalFullMessage real | WarningMessage real

record context_check =
  current_usage :: real
  warning_threshold_crossed :: bool
  critical_threshold_crossed :: bool
  cw_action_required :: "string option"
  cw_message :: "context_message option"
  cw_backup_type :: "string option"

text \<open>
  An evaluation returns its result and the monitor as it is afterwards. When the estimate
  raises, the exception leaves the method before the state is touched.
\<close>

definition check_context_thresholds ::
  "context_monitor \<Rightarrow> timestamp \<Rightarrow> string \<Rightarrow> (py_error + context_check) \<times> context_monitor" where
  "check_context_thresholds m now conversation_text =
     (case estimate_context_usage m conversation_text of
        Inl e \<Rightarrow> (Inl e, m)
      | Inr usage \<Rightarrow>
     (let st = (cw_state m)\<lparr>estimated_context_usage := usage\<rparr>;
          result = \<lparr> current_usage = usage, warning_threshold_crossed = False,
                     critical_threshold_crossed = False, cw_action_required = None,
                     cw_message = None, cw_backup_type = None \<rparr>
      in if usage \<ge> critical_threshold m \<and> \<not> critical_triggered st
         then (Inr (result\<lparr> critical_threshold_crossed := True,
                        cw_action_required := Some ''critical_backup'',
                        cw_message := Some (if base_context_created st
                                            then CriticalDeltaMessage usage
                                            else CriticalFullMessage usage),
                        cw_backup_type := Some (if base_context_created st
                                                then ''delta_session'' else ''full_backup'') \<rparr>),
               cw_save_state now (m\<lparr>cw_state := st\<lparr>critical_triggered := True\<rparr>\<rparr>))
         else if usage \<ge> warning_threshold m \<and> \<not> warning_triggered st
         then (Inr (result\<lparr> warning_threshold_crossed := True,
                        cw_action_required := Some ''warning_backup'',
                        cw_message := Some (WarningMessage usage),
                        cw_backup_type := Some ''base_context'' \<rparr>),
               cw_save_state now (m\<lparr>cw_state := st\<lparr>warning_triggered := True\<rparr>\<rparr>))
         else (Inr result, cw_save_state now (m\<lparr>cw_state := st\<rparr>))))"

text \<open>
  What an evaluation reports under a key of its result; an evaluation that raises has no
  result and reports nothing.
\<close>

definition reported :: "('r \<Rightarrow> bool) \<Rightarrow> py_error + 'r \<Rightarrow> bool" where
  "reported key outcome = (case outcome of Inl e \<Rightarrow> False | Inr result \<Rightarrow> key result)"

text \<open>
  A trigger handler returns its dictionary, or the exception that leaves it, with the
  monitor and the input lines left.
\<close>

type_synonym 'm handled = "(py_error + pydict) \<times> 'm \<times> string list"

definition create_base_context ::
  "context_monitor \<Rightarrow> generator \<Rightarrow> timestamp \<Rightarrow> string list \<Rightarrow> context_monitor handled" where
  "create_base_context m g now ins =
     (case g \<lparr> req_type = FULL, trigger_reason = ''context-warning-10pct'',
               auto_created = False, conversation_exchanges = None \<rparr> ins of
        (Inl e, ins') \<Rightarrow>
          (Inr [(''error'', PStr (''Base context creation failed: '' @ error_str e))], m, ins')
      | (Inr result, ins') \<Rightarrow>
          if truthy (dict_get result ''success'')
          then (Inr (dict_update result
                       [(''backup_type'', PStr ''base_context''),
                        (''base_context_snapshot'', dict_get result ''snapshot_id'')]),
                cw_save_state now
                  (m\<lparr>cw_state := (cw_state m)
                      \<lparr> base_context_created := True,
                        base_context_snapshot := dict_get result ''snapshot_id'',
                        base_context_timestamp := Some now,
                        conversation_exchanges_since_base := 0 \<rparr>\<rparr>),
                ins')
          else (Inr result, m, ins'))"

definition create_delta_session ::
  "context_monitor \<Rightarrow> generator \<Rightarrow> string list \<Rightarrow> context_monitor handled" where
  "create_delta_session m g ins =
     (let delta_exchanges = max (conversation_exchanges_since_base (cw_state m)) 3
      in case g \<lparr> req_type = COMPLEX, trigger_reason = ''context-critical-5pct-delta'',
                  auto_created = True, conversation_exchanges = Some delta_exchanges \<rparr> ins of
           (Inl e, ins') \<Rightarrow>
             (Inr [(''error'', PStr (''Delta session creation failed: '' @ error_str e))], m, ins')
         | (Inr result, ins') \<Rightarrow>
             if truthy (dict_get result ''success'')
             then (Inr (dict_update result
                          [(''backup_type'', PStr ''delta_session''),
                           (''base_context_snapshot'', base_context_snapshot (cw_state m)),
                           (''delta_exchanges'', PInt (int delta_exchanges))]),
                   m, ins')
             else (Inr result, m, ins'))"

definition create_full_critical_backup ::
  "context_monitor \<Rightarrow> generator \<Rightarrow> string list \<Rightarrow> context_monitor handled" where
  "create_full_critical_backup m g ins =
     (case g \<lparr> req_type = COMPLEX, trigger_reason = ''context-critical-5pct-full'',
               auto_created = True, conversation_exchanges = None \<rparr> ins of
        (Inl e, ins') \<Rightarrow>
          (Inr [(''error'', PStr (''Full critical backup failed: '' @ error_str e))], m, ins')
      | (Inr result, ins') \<Rightarrow>
          if truthy (dict_get result ''success'')
          then (Inr (dict_update result
                       [(''backup_type'', PStr ''full_critical''),
                        (''context_usage_at_trigger'',
                         PList [PFloat (estimated_context_usage (cw_state m) * 100), PStr ''%''])]),
                m, ins')
          else (Inr result, m, ins'))"

definition handle_warning_trigger ::
  "context_monitor \<Rightarrow> timestamp \<Rightarrow> string option \<Rightarrow> string list \<Rightarrow> context_monitor handled" where
  "handle_warning_trigger m now auto_response ins =
     (case cw_generator m of
        None \<Rightarrow> (Inr generator_not_available, m, ins)
      | Some g \<Rightarrow>
          (let answer = (\<lambda>choice ins'.
                 if choice \<in> set [''y'', ''yes''] then create_base_context m g now ins'
                 else if choice \<in> set [''n'', ''no'']
                 then (Inr [(''skipped'', PBool True),
                            (''reason'', PStr ''User declined base context backup'')], m, ins')
                 else (Inr [(''skipped'', PBool True),
                            (''reason'', PStr ''Invalid input, defaulted to no'')], m, ins'))
           in case auto_response of
                Some (c # cs) \<Rightarrow> answer (lower (c # cs)) ins
              | _ \<Rightarrow> (case ins of
                         [] \<Rightarrow> (Inl EOFError, m, [])
                       | line # rest \<Rightarrow> answer (lower (strip line)) rest)))"

definition handle_critical_trigger :: "context_monitor \<Rightarrow> string list \<Rightarrow> context_monitor handled" where
  "handle_critical_trigger m ins =
     (case cw_generator m of
        None \<Rightarrow> (Inr generator_not_available, m, ins)
      | Some g \<Rightarrow>
          if base_context_created (cw_state m) then create_delta_session m g ins
          else create_full_critical_backup m g ins)"

definition increment_exchange_count :: "context_monitor \<Rightarrow> timestamp \<Rightarrow> context_monitor" where
  "increment_exchange_count m now =
     cw_save_state now
       (m\<lparr>cw_state := (cw_state m)
           \<lparr>conversation_exchanges_since_base :=
              conversation_exchanges_since_base (cw_state m) + 1\<rparr>\<rparr>)"

definition reset_monitoring :: "context_monitor \<Rightarrow> timestamp \<Rightarrow> context_monitor" where
  "reset_monitoring m now = cw_save_state now (m\<lparr>cw_state := cw_default_state\<rparr>)"

text \<open>
  \<^verbatim>\<open>monitor_conversation\<close> returns a dictionary or \<^verbatim>\<open>None\<close>; an exception of a handler
  goes through it.
\<close>

definition monitor_conversation ::
  "context_monitor \<Rightarrow> timestamp \<Rightarrow> string \<Rightarrow> string list
     \<Rightarrow> (py_error + pydict option) \<times> context_monitor \<times> string list" where
  "monitor_conversation m now conversation_text ins =
     (if \<not> context_monitoring m then (Inr None, m, ins)
      else (let m1 = increment_exchange_count m now
            in case check_context_thresholds m1 now conversation_text of
                 (Inl e, m2) \<Rightarrow> (Inl e, m2, ins)
               | (Inr threshold_result, m2) \<Rightarrow>
                   if critical_threshold_crossed threshold_result
                   then (case handle_critical_trigger m2 ins of
                           (r, m3, ins') \<Rightarrow> (map_sum id Some r, m3, ins'))
                   else if warning_threshold_crossed threshold_result
                   then (case handle_warning_trigger m2 now None ins of
                           (r, m3, ins') \<Rightarrow> (map_sum id Some r, m3, ins'))
                   else (Inr None, m2, ins)))"

section \<open>Credit monitor\<close>

record credit_monitor =
  credit_auto_trigger :: bool
  cr_generator :: "generator option"

definition cr_init :: "bool \<Rightarrow> generator option \<Rightarrow> credit_monitor" where
  "cr_init auto gen =
     \<lparr> credit_auto_trigger = auto,
       cr_generator = (case gen of None \<Rightarrow> None | Some g \<Rightarrow> Some g) \<rparr>"

definition credit_patterns :: "rx list" where
  "credit_patterns =
     [ seqs [str ''credit'', Opt (str ''s''), Many 1 Space, str ''running'', Many 1 Space,
             str ''low''],
       seqs [str ''usage'', Many 1 Space, str ''limit'', Many 1 Space,
             Group 1 (alts [str ''reached'', str ''approaching''])],
       seqs [str ''approaching'', Many 1 Space, str ''usage'', Many 1 Space, str ''limit''],
       seqs [str ''resume'', Many 1 Space, str ''at'', Many 1 Space, Many 1 Digit,
             Atom (OneOf ''ap''), str ''m''],
       seqs [str ''reset'', Opt (str ''s''), Many 1 Space, str ''at'', Many 1 Space,
             Many 1 Digit, Atom (OneOf ''ap''), str ''m''],
       seqs [str ''upgrade'', Many 1 Space, Many 0 AnyChar, str ''more'', Many 1 Space,
             str ''credit''],
       seqs [str ''session'', Many 1 Space, str ''will'', Many 1 Space, str ''pause''],
       seqs [str ''daily'', Many 1 Space, str ''limit'', Many 1 Space, str ''reached''],
       seqs [str ''credit'', Opt (str ''s''), Many 1 Space, Many 0 AnyChar, str ''refresh''] ]"

definition time_patterns :: "rx list" where
  "time_patterns =
     [ seqs [str ''resume'', Many 1 Space, str ''at'', Many 1 Space,
             Group 1 (seqs [Many 1 Digit, Atom (OneOf ''ap''), str ''m''])],
       seqs [str ''available'', Many 1 Space, str ''at'', Many 1 Space,
             Group 1 (seqs [Many 1 Digit, Atom (OneOf ''ap''), str ''m''])],
       seqs [str ''refresh'', Many 1 Space, str ''at'', Many 1 Space,
             Group 1 (seqs [Many 1 Digit, Atom (OneOf ''ap''), str ''m''])] ]"

fun first_group :: "rx list \<Rightarrow> string \<Rightarrow> string option" where
  "first_group [] message = None"
| "first_group (p # ps) message =
     (case search p message of
        Some m \<Rightarrow> Some (group (snd m) 1)
      | None \<Rightarrow> first_group ps message)"

definition extract_resume_time :: "string \<Rightarrow> string option" where
  "extract_resume_time message = first_group time_patterns message"

definition classify_warning_type :: "string \<Rightarrow> string" where
  "classify_warning_type message =
     (if contains message ''daily limit'' \<or> contains message ''24 hour'' then ''daily_limit''
      else if contains message ''upgrade'' then ''upgrade_suggestion''
      else if contains message ''running low'' then ''low_credits''
      else if contains message ''pause'' then ''session_pause''
      else ''general_limit'')"

text \<open>
  The dictionary of \<^verbatim>\<open>detect_credit_warning\<close>. A matched pattern is named by its position
  in \<open>credit_patterns\<close>.
\<close>

datatype warning_info =
    NotDetected
  | Detected (patterns_matched: "nat list") (resume_time: "string option")
      (warning_type: string) (original_message: string) (confidence: real)

definition detect_credit_warning :: "string \<Rightarrow> warning_info" where
  "detect_credit_warning message =
     (let message_lower = lower message;
          detected_patterns =
            filter (\<lambda>i. search (credit_patterns ! i) message_lower \<noteq> None)
              [0 ..< length credit_patterns]
      in if detected_patterns \<noteq> []
         then Detected detected_patterns (extract_resume_time message)
                (classify_warning_type message_lower) message
                (real (length detected_patterns) / real (length credit_patterns))
         else NotDetected)"

fun warning_info_dict :: "warning_info \<Rightarrow> pydict" where
  "warning_info_dict NotDetected = [(''credit_warning_detected'', PBool False)]"
| "warning_info_dict (Detected ps rt wt msg conf) =
     [(''credit_warning_detected'', PBool True),
      (''patterns_matched'', PList (map (\<lambda>i. PInt (int i)) ps)),
      (''resume_time'', (case rt of None \<Rightarrow> PNone | Some t \<Rightarrow> PStr t)),
      (''warning_type'', PStr wt),
      (''original_message'', PStr msg),
      (''confidence'', PFloat conf)]"

definition generate_threshold_title :: "string \<Rightarrow> pyval \<Rightarrow> string" where
  "generate_threshold_title wt rt =
     ''Threshold backup'' @ (case rt of PStr (c # cs) \<Rightarrow> '' (resume '' @ c # cs @ '')'' | _ \<Rightarrow> [])"

definition execute_threshold_backup ::
  "generator \<Rightarrow> string \<Rightarrow> pydict \<Rightarrow> string list \<Rightarrow> (py_error + pydict) \<times> string list" where
  "execute_threshold_backup g ptype info ins =
     (let pkg_type = (if ptype = ''light'' then LIGHT else if ptype = ''full'' then FULL
                      else if ptype = ''complex'' then COMPLEX else FULL);
          rt = dict_get info ''resume_time'';
          wt = (case dict_get_default info ''warning_type'' (PStr ''general_limit'') of
                  PStr w \<Rightarrow> w | _ \<Rightarrow> []);
          title = generate_threshold_title wt rt;
          reason = ''threshold-'' @
                   (case dict_get_default info ''warning_type'' (PStr ''general'') of
                      PStr w \<Rightarrow> w | _ \<Rightarrow> [])
      in case g \<lparr> req_type = pkg_type, trigger_reason = reason, auto_created = True,
                  conversation_exchanges = None \<rparr> ins of
           (Inl e, ins') \<Rightarrow> (Inr [(''error'', PStr (''Backup failed: '' @ error_str e))], ins')
         | (Inr result, ins') \<Rightarrow>
             (Inr (dict_update result
                     [(''threshold_triggered'', PBool True),
                      (''backup_title'', PStr title),
                      (''warning_info'', PDict info)]), ins'))"

text \<open>The two prompt loops: each reads lines until one is a valid answer.\<close>

fun show_backup_options ::
  "generator \<Rightarrow> pydict \<Rightarrow> string list \<Rightarrow> (py_error + pydict) \<times> string list" where
  "show_backup_options g info [] = (Inl EOFError, [])"
| "show_backup_options g info (line # rest) =
     (let choice = strip line
      in if choice = ''1'' then execute_threshold_backup g ''light'' info rest
         else if choice = ''2'' then execute_threshold_backup g ''full'' info rest
         else if choice = ''3'' then execute_threshold_backup g ''complex'' info rest
         else show_backup_options g info rest)"

fun backup_prompt_loop ::
  "generator \<Rightarrow> pydict \<Rightarrow> string list \<Rightarrow> (py_error + pydict) \<times> string list" where
  "backup_prompt_loop g info [] = (Inl EOFError, [])"
| "backup_prompt_loop g info (line # rest) =
     (let choice = lower (strip line)
      in if choice \<in> set [''y'', ''yes''] then show_backup_options g info rest
         else if choice \<in> set [''n'', ''no'']
         then (Inr [(''skipped'', PBool True), (''reason'', PStr ''User chose to skip backup'')],
               rest)
         else backup_prompt_loop g info rest)"

definition trigger_backup_prompt ::
  "credit_monitor \<Rightarrow> pydict \<Rightarrow> string list \<Rightarrow> (py_error + pydict) \<times> string list" where
  "trigger_backup_prompt m info ins =
     (if \<not> credit_auto_trigger m
      then (Inr [(''skipped'', PBool True), (''reason'', PStr ''Credit auto-trigger disabled'')],
            ins)
      else case cr_generator m of
             None \<Rightarrow> (Inr generator_not_available, ins)
           | Some g \<Rightarrow> backup_prompt_loop g info ins)"

definition monitor_session ::
  "credit_monitor \<Rightarrow> string \<Rightarrow> string list \<Rightarrow> (py_error + pydict option) \<times> string list" where
  "monitor_session m message ins =
     (case detect_credit_warning message of
        NotDetected \<Rightarrow> (Inr None, ins)
      | Detected ps rt wt msg conf \<Rightarrow>
          (case trigger_backup_prompt m (warning_info_dict (Detected ps rt wt msg conf)) ins of
             (r, ins') \<Rightarrow> (map_sum id Some r, ins')))"

section \<open>Session duration monitor\<close>

text \<open>
  A session identifier is given by the caller, or made from the clock with a prefix
  (\<^verbatim>\<open>session-\<close>, \<^verbatim>\<open>unified-\<close>) when the caller gives none.
\<close>

datatype session_name = Named string | Generated string timestamp

definition name_or_generated :: "session_name option \<Rightarrow> string \<Rightarrow> timestamp \<Rightarrow> session_name" where
  "name_or_generated session_id prefix now =
     (case session_id of
        Some (Named (c # cs)) \<Rightarrow> Named (c # cs)
      | Some (Generated p t) \<Rightarrow> Generated p t
      | _ \<Rightarrow> Generated prefix now)"

record session_state =
  session_start :: "timestamp option"
  last_activity :: "timestamp option"
  code_yellow_triggered :: bool
  code_orange_triggered :: bool
  session_id :: "session_name option"
  total_exchanges :: nat
  emergency_backups_created :: nat

text \<open>
  The monitor object. Of the background thread the model keeps the stop flag and whether
  a thread exists and is alive (\<^verbatim>\<open>monitoring_thread.is_alive()\<close>). Stopping sets the flag
  and waits at most one second; the thread ends only when its loop next tests the flag,
  which is a step of its own (\<open>monitoring_thread_ends\<close>) that the scheduler places.
\<close>

record session_monitor =
  session_monitoring :: bool
  auto_code_yellow :: bool
  sd_state :: session_state
  session_limit :: real
  code_yellow_threshold :: real
  code_orange_threshold :: real
  monitoring_thread_alive :: bool
  stop_monitoring :: bool
  sd_generator :: "generator option"

definition sd_default_state :: session_state where
  "sd_default_state =
     \<lparr> session_start = None, last_activity = None, code_yellow_triggered = False,
       code_orange_triggered = False, session_id = None, total_exchanges = 0,
       emergency_backups_created = 0 \<rparr>"

text \<open>
  \<^verbatim>\<open>SessionDurationMonitor.__init__\<close>: \<^verbatim>\<open>_load_config\<close> runs first and sets the three
  limits from the configuration; the assignments that follow in \<^verbatim>\<open>__init__\<close> then set
  them to 5.0, 4.5 and 4.75.
\<close>

definition sd_init ::
  "bool \<Rightarrow> bool \<Rightarrow> real \<Rightarrow> real \<Rightarrow> real \<Rightarrow> session_state \<Rightarrow> generator option \<Rightarrow> session_monitor" where
  "sd_init monitoring auto_yellow limit_hours yellow_hours orange_hours st gen =
     (let loaded = \<lparr> session_monitoring = monitoring, auto_code_yellow = auto_yellow,
                     sd_state = st, session_limit = limit_hours,
                     code_yellow_threshold = yellow_hours, code_orange_threshold = orange_hours,
                     monitoring_thread_alive = False, stop_monitoring = False,
                     sd_generator = None \<rparr>
      in loaded\<lparr> session_limit := 5.0, code_yellow_threshold := 4.5,
                 code_orange_threshold := 4.75,
                 sd_generator := (case gen of None \<Rightarrow> None | Some g \<Rightarrow> Some g) \<rparr>)"

definition start_monitoring_thread :: "session_monitor \<Rightarrow> session_monitor" where
  "start_monitoring_thread m =
     (if monitoring_thread_alive m then m
      else m\<lparr>stop_monitoring := False, monitoring_thread_alive := True\<rparr>)"

definition stop_monitoring_thread :: "session_monitor \<Rightarrow> session_monitor" where
  "stop_monitoring_thread m = m\<lparr>stop_monitoring := True\<rparr>"

definition monitoring_thread_ends :: "session_monitor \<Rightarrow> session_monitor" where
  "monitoring_thread_ends m =
     (if stop_monitoring m then m\<lparr>monitoring_thread_alive := False\<rparr> else m)"

definition start_session :: "session_monitor \<Rightarrow> timestamp \<Rightarrow> session_name option \<Rightarrow> session_monitor" where
  "start_session m now sid =
     (let m1 = m\<lparr>sd_state :=
                  \<lparr> session_start = Some now, last_activity = Some now,
                    code_yellow_triggered = False, code_orange_triggered = False,
                    session_id = Some (name_or_generated sid ''session-'' now),
                    total_exchanges = 0, emergency_backups_created = 0 \<rparr>\<rparr>
      in if session_monitoring m1 then start_monitoring_thread m1 else m1)"

definition get_session_duration :: "session_monitor \<Rightarrow> timestamp \<Rightarrow> real" where
  "get_session_duration m now =
     (case session_start (sd_state m) of
        None \<Rightarrow> 0.0
      | Some start_time \<Rightarrow> (now - start_time) / 3600.0)"

definition get_time_remaining :: "session_monitor \<Rightarrow> timestamp \<Rightarrow> real" where
  "get_time_remaining m now = max 0.0 (session_limit m - get_session_duration m now)"

definition sd_update_activity :: "session_monitor \<Rightarrow> timestamp \<Rightarrow> session_monitor" where
  "sd_update_activity m now =
     m\<lparr>sd_state := (sd_state m)
         \<lparr>last_activity := Some now, total_exchanges := total_exchanges (sd_state m) + 1\<rparr>\<rparr>"

datatype session_message = LimitExceededMessage real real | CodeOrangeMessage real | CodeYellowMessage real

record session_check =
  session_duration_hours :: real
  time_remaining_hours :: real
  time_remaining_minutes :: real
  code_orange_crossed :: bool
  code_yellow_crossed :: bool
  session_limit_exceeded :: bool
  sd_action_required :: "string option"
  sd_message :: "session_message option"

text \<open>
  \<^verbatim>\<open>check_session_thresholds\<close> reads the clock twice: \<open>now\<close> for the duration, \<open>now2\<close> for
  the time that remains.
\<close>

definition check_session_thresholds ::
  "session_monitor \<Rightarrow> timestamp \<Rightarrow> timestamp \<Rightarrow> session_check \<times> session_monitor" where
  "check_session_thresholds m now now2 =
     (let duration = get_session_duration m now;
          time_remaining = get_time_remaining m now2;
          result = \<lparr> session_duration_hours = duration, time_remaining_hours = time_remaining,
                     time_remaining_minutes = time_remaining * 60, code_orange_crossed = False,
                     code_yellow_crossed = False, session_limit_exceeded = False,
                     sd_action_required = None, sd_message = None \<rparr>
      in if duration \<ge> session_limit m
         then (result\<lparr> session_limit_exceeded := True,
                        sd_action_required := Some ''emergency_backup'',
                        sd_message := Some (LimitExceededMessage duration (session_limit m)) \<rparr>,
               m)
         else if duration \<ge> code_orange_threshold m \<and> \<not> code_orange_triggered (sd_state m)
         then (result\<lparr> code_orange_crossed := True,
                        sd_action_required := Some ''code_orange'',
                        sd_message := Some (CodeOrangeMessage (time_remaining * 60)) \<rparr>,
               m\<lparr>sd_state := (sd_state m)\<lparr>code_orange_triggered := True\<rparr>\<rparr>)
         else if duration \<ge> code_yellow_threshold m \<and> \<not> code_yellow_triggered (sd_state m)
         then (result\<lparr> code_yellow_crossed := True,
                        sd_action_required := Some ''code_yellow'',
                        sd_message := Some (CodeYellowMessage (time_remaining * 60)) \<rparr>,
               m\<lparr>sd_state := (sd_state m)\<lparr>code_yellow_triggered := True\<rparr>\<rparr>)
         else (result, m))"

definition trigger_code_yellow ::
  "session_monitor \<Rightarrow> timestamp \<Rightarrow> string list \<Rightarrow> session_monitor handled" where
  "trigger_code_yellow m now ins =
     (case sd_generator m of
        None \<Rightarrow> (Inr generator_not_available, m, ins)
      | Some g \<Rightarrow>
          (case g \<lparr> req_type = COMPLEX, trigger_reason = ''code-yellow-session-limit'',
                    auto_created = True, conversation_exchanges = Some 10 \<rparr> ins of
             (Inl e, ins') \<Rightarrow>
               (Inr [(''error'', PStr (''Code Yellow backup failed: '' @ error_str e))], m, ins')
           | (Inr result, ins') \<Rightarrow>
               if truthy (dict_get result ''success'')
               then (Inr (dict_update result
                            [(''code_yellow_triggered'', PBool True),
                             (''backup_title'',
                              PList [PStr ''Code Yellow (Session '',
                                     PFloat (get_session_duration m now), PStr ''h)'']),
                             (''session_duration'', PFloat (get_session_duration m now)),
                             (''time_remaining'', PFloat (get_time_remaining m now))]),
                     m\<lparr>sd_state := (sd_state m)
                         \<lparr>emergency_backups_created :=
                            emergency_backups_created (sd_state m) + 1\<rparr>\<rparr>,
                     ins')
               else (Inr result, m, ins')))"

definition reset_session :: "session_monitor \<Rightarrow> session_monitor" where
  "reset_session m = (stop_monitoring_thread m)\<lparr>sd_state := sd_default_state\<rparr>"

section \<open>Monitoring coordinator\<close>

record trigger_event =
  ev_timestamp :: timestamp
  ev_type :: string
  ev_result :: pydict
  ev_success :: pyval

record coordinator_state =
  coordinator_started :: "timestamp option"
  co_session_id :: "session_name option"
  total_triggers_fired :: nat
  triggers_history :: "trigger_event list"
  last_coordination_check :: "timestamp option"

text \<open>
  The coordinator object: the configuration keys it reads, its state, the three monitors
  (all absent when the import of the monitor modules failed), and the flags of its thread.
\<close>

record coordinator =
  unified_monitoring :: bool
  co_session_monitoring :: bool
  co_credit_monitoring :: bool
  co_context_monitoring :: bool
  co_state :: coordinator_state
  session_mon :: "session_monitor option"
  credit_mon :: "credit_monitor option"
  context_mon :: "context_monitor option"
  coordination_thread_alive :: bool
  stop_coordination :: bool

definition co_default_state :: coordinator_state where
  "co_default_state =
     \<lparr> coordinator_started = None, co_session_id = None, total_triggers_fired = 0,
       triggers_history = [], last_coordination_check = None \<rparr>"

text \<open>
  \<^verbatim>\<open>MonitoringCoordinator.__init__\<close>, with the configuration, the state and the monitors
  it builds as arguments.
\<close>

definition co_init ::
  "bool \<Rightarrow> bool \<Rightarrow> bool \<Rightarrow> bool \<Rightarrow> coordinator_state
     \<Rightarrow> session_monitor option \<Rightarrow> credit_monitor option \<Rightarrow> context_monitor option
     \<Rightarrow> coordinator" where
  "co_init unified session credit context st sm crm cm =
     \<lparr> unified_monitoring = unified, co_session_monitoring = session,
       co_credit_monitoring = credit, co_context_monitoring = context, co_state = st,
       session_mon = sm, credit_mon = crm, context_mon = cm,
       coordination_thread_alive = False, stop_coordination = False \<rparr>"

text \<open>\<^verbatim>\<open>xs[-10:]\<close>\<close>

definition last10 :: "'a list \<Rightarrow> 'a list" where
  "last10 xs = drop (length xs - 10) xs"

definition log_trigger :: "coordinator \<Rightarrow> timestamp \<Rightarrow> string \<Rightarrow> pydict \<Rightarrow> coordinator" where
  "log_trigger c now trigger_type trigger_result =
     (let trigger_event = \<lparr> ev_timestamp = now, ev_type = trigger_type,
                            ev_result = trigger_result,
                            ev_success = dict_get_default trigger_result ''success'' (PBool False) \<rparr>;
          history = triggers_history (co_state c) @ [trigger_event]
      in c\<lparr>co_state := (co_state c)
            \<lparr> total_triggers_fired := total_triggers_fired (co_state c) + 1,
              triggers_history := (if length history > 10 then last10 history else history) \<rparr>\<rparr>)"

definition start_coordination_thread :: "coordinator \<Rightarrow> coordinator" where
  "start_coordination_thread c =
     (if coordination_thread_alive c then c
      else c\<lparr>stop_coordination := False, coordination_thread_alive := True\<rparr>)"

definition stop_coordination_thread :: "coordinator \<Rightarrow> coordinator" where
  "stop_coordination_thread c = c\<lparr>stop_coordination := True\<rparr>"

definition coordination_thread_ends :: "coordinator \<Rightarrow> coordinator" where
  "coordination_thread_ends c =
     (if stop_coordination c then c\<lparr>coordination_thread_alive := False\<rparr> else c)"

text \<open>
  \<^verbatim>\<open>start_unified_monitoring\<close> returns the identifier, the monitors it started and the
  errors (none of the calls it makes can raise here).
\<close>

definition start_unified_monitoring ::
  "coordinator \<Rightarrow> timestamp \<Rightarrow> session_name option
     \<Rightarrow> (session_name \<times> string list \<times> string list) \<times> coordinator" where
  "start_unified_monitoring c now sid =
     (let co_id = name_or_generated sid ''unified-'' now;
          (started1, c1) =
            (case session_mon c of
               Some sm \<Rightarrow>
                 if co_session_monitoring c
                 then ([''session_duration''],
                       c\<lparr>session_mon := Some (start_session sm now (Some co_id))\<rparr>)
                 else ([], c)
             | None \<Rightarrow> ([], c));
          started2 = (if credit_mon c \<noteq> None \<and> co_credit_monitoring c
                      then started1 @ [''credit_limit''] else started1);
          started3 = (if context_mon c \<noteq> None \<and> co_context_monitoring c
                      then started2 @ [''context_window''] else started2);
          (started4, c2) = (if unified_monitoring c
                            then (started3 @ [''coordination''], start_coordination_thread c1)
                            else (started3, c1))
      in ((co_id, started4, []),
          c2\<lparr>co_state := (co_state c2)
              \<lparr> coordinator_started := Some now, co_session_id := Some co_id,
                total_triggers_fired := 0, triggers_history := [] \<rparr>\<rparr>))"

text \<open>
  \<^verbatim>\<open>update_activity\<close> of the coordinator: step 1 notes the activity in the session
  monitor, step 2 asks the credit monitor, step 3 the context monitor. An exception of a
  monitor is caught and printed, and the method goes on with the next step.
\<close>

definition co_check_context ::
  "coordinator \<Rightarrow> timestamp \<Rightarrow> string \<Rightarrow> string list \<Rightarrow> pydict option \<times> coordinator \<times> string list" where
  "co_check_context c now conversation_text ins =
     (case context_mon c of
        Some cm \<Rightarrow>
          if conversation_text \<noteq> []
          then (case monitor_conversation cm now conversation_text ins of
                  (Inr (Some context_result), cm', ins') \<Rightarrow>
                    if context_result \<noteq> []
                    then (Some context_result,
                          log_trigger (c\<lparr>context_mon := Some cm'\<rparr>) now ''context_window''
                            context_result,
                          ins')
                    else (None, c\<lparr>context_mon := Some cm'\<rparr>, ins')
                | (_, cm', ins') \<Rightarrow> (None, c\<lparr>context_mon := Some cm'\<rparr>, ins'))
          else (None, c, ins)
      | None \<Rightarrow> (None, c, ins))"

definition co_note_activity :: "coordinator \<Rightarrow> timestamp \<Rightarrow> coordinator" where
  "co_note_activity c now =
     (case session_mon c of
        Some sm \<Rightarrow> c\<lparr>session_mon := Some (sd_update_activity sm now)\<rparr>
      | None \<Rightarrow> c)"

definition update_activity ::
  "coordinator \<Rightarrow> timestamp \<Rightarrow> string \<Rightarrow> string \<Rightarrow> string list
     \<Rightarrow> pydict option \<times> coordinator \<times> string list" where
  "update_activity c now conversation_text claude_message ins =
     (let c1 = co_note_activity c now
      in case credit_mon c1 of
           Some crm \<Rightarrow>
             if claude_message \<noteq> []
             then (case monitor_session crm claude_message ins of
                     (Inr (Some credit_result), ins') \<Rightarrow>
                       if credit_result \<noteq> []
                       then (Some credit_result,
                             log_trigger c1 now ''credit_warning'' credit_result, ins')
                       else co_check_context c1 now conversation_text ins'
                   | (_, ins') \<Rightarrow> co_check_context c1 now conversation_text ins')
             else co_check_context c1 now conversation_text ins
         | None \<Rightarrow> co_check_context c1 now conversation_text ins)"

text \<open>
  One turn of \<^verbatim>\<open>_coordination_loop\<close>, without the sleep. An exception ends the turn
  before the time of the check is stored.
\<close>

definition coordination_turn ::
  "coordinator \<Rightarrow> timestamp \<Rightarrow> timestamp \<Rightarrow> string list \<Rightarrow> coordinator \<times> string list" where
  "coordination_turn c now now2 ins =
     (let checked = (\<lambda>c'. c'\<lparr>co_state := (co_state c')\<lparr>last_coordination_check := Some now\<rparr>\<rparr>)
      in case session_mon c of
           None \<Rightarrow> (checked c, ins)
         | Some sm \<Rightarrow>
             (case check_session_thresholds sm now now2 of
                (threshold_result, sm1) \<Rightarrow>
                  if code_yellow_crossed threshold_result
                  then (case trigger_code_yellow sm1 now ins of
                          (Inr result, sm2, ins') \<Rightarrow>
                            (checked (log_trigger (c\<lparr>session_mon := Some sm2\<rparr>) now
                                        ''code_yellow'' result), ins')
                        | (Inl e, sm2, ins') \<Rightarrow> (c\<lparr>session_mon := Some sm2\<rparr>, ins'))
                  else (checked (c\<lparr>session_mon := Some sm1\<rparr>), ins)))"

text \<open>\<^verbatim>\<open>get_unified_status\<close> changes nothing; of its result the model keeps the health.\<close>

definition get_unified_status :: "coordinator \<Rightarrow> string \<times> nat" where
  "get_unified_status c =
     (let total_monitors = length (filter id [session_mon c \<noteq> None, credit_mon c \<noteq> None,
                                              context_mon c \<noteq> None]);
          active_monitors = total_monitors
      in (if active_monitors = total_monitors \<and> total_monitors > 0 then ''healthy''
          else if active_monitors > 0 then ''partial'' else ''failed'',
          total_triggers_fired (co_state c)))"

definition stop_unified_monitoring :: "coordinator \<Rightarrow> coordinator" where
  "stop_unified_monitoring c =
     (let c1 = stop_coordination_thread c
      in case session_mon c1 of
           Some sm \<Rightarrow> c1\<lparr>session_mon := Some (stop_monitoring_thread sm)\<rparr>
         | None \<Rightarrow> c1)"

definition reset_all_monitoring :: "coordinator \<Rightarrow> timestamp \<Rightarrow> coordinator" where
  "reset_all_monitoring c now =
     (let c1 = stop_unified_monitoring c;
          c2 = (case session_mon c1 of
                  Some sm \<Rightarrow> c1\<lparr>session_mon := Some (reset_session sm)\<rparr>
                | None \<Rightarrow> c1);
          c3 = (case context_mon c2 of
                  Some cm \<Rightarrow> c2\<lparr>context_mon := Some (reset_monitoring cm now)\<rparr>
                | None \<Rightarrow> c2)
      in c3\<lparr>co_state := co_default_state\<rparr>)"

text \<open>The operations of the coordinator, to speak about all of them at once.\<close>

datatype co_operation =
    OpStart "session_name option"
  | OpUpdateActivity string string
  | OpLogTrigger string pydict
  | OpCoordinationTurn timestamp
  | OpGetStatus
  | OpStop
  | OpReset

fun co_run :: "coordinator \<Rightarrow> timestamp \<Rightarrow> string list \<Rightarrow> co_operation \<Rightarrow> coordinator \<times> string list" where
  "co_run c now ins (OpStart sid) = (snd (start_unified_monitoring c now sid), ins)"
| "co_run c now ins (OpUpdateActivity conversation_text claude_message) =
     snd (update_activity c now conversation_text claude_message ins)"
| "co_run c now ins (OpLogTrigger trigger_type trigger_result) =
     (log_trigger c now trigger_type trigger_result, ins)"
| "co_run c now ins (OpCoordinationTurn now2) = coordination_turn c now now2 ins"
| "co_run c now ins OpGetStatus = (c, ins)"
| "co_run c now ins OpStop = (stop_unified_monitoring c, ins)"
| "co_run c now ins OpReset = (reset_all_monitoring c now, ins)"

text \<open>Logging a list of events one after the other.\<close>

fun log_all :: "coordinator \<Rightarrow> (timestamp \<times> string \<times> pydict) list \<Rightarrow> coordinator" where
  "log_all c [] = c"
| "log_all c ((now, trigger_type, trigger_result) # evs) =
     log_all (log_trigger c now trigger_type trigger_result) evs"

definition event_of :: "timestamp \<times> string \<times> pydict \<Rightarrow> trigger_event" where
  "event_of e =
     (case e of (now, trigger_type, trigger_result) \<Rightarrow>
        \<lparr> ev_timestamp = now, ev_type = trigger_type, ev_result = trigger_result,
          ev_success = dict_get_default trigger_result ''success'' (PBool False) \<rparr>)"

text \<open>Repeated threshold evaluations, with the results in the order of the calls.\<close>

fun context_checks ::
  "context_monitor \<Rightarrow> (timestamp \<times> string) list
     \<Rightarrow> (py_error + context_check) list \<times> context_monitor" where
  "context_checks m [] = ([], m)"
| "context_checks m ((now, conversation_text) # calls) =
     (case check_context_thresholds m now conversation_text of
        (r, m') \<Rightarrow> (case context_checks m' calls of (rs, m'') \<Rightarrow> (r # rs, m'')))"

fun session_checks ::
  "session_monitor \<Rightarrow> (timestamp \<times> timestamp) list \<Rightarrow> session_check list \<times> session_monitor" where
  "session_checks m [] = ([], m)"
| "session_checks m ((now, now2) # calls) =
     (case check_session_thresholds m now now2 of
        (r, m') \<Rightarrow> (case session_checks m' calls of (rs, m'') \<Rightarrow> (r # rs, m'')))"

section \<open>Example states\<close>

text \<open>
  Concrete monitors for the examples below: a context monitor as first constructed, a
  session that was started at time 0, and a coordinator whose monitors have fired all their
  one-shot triggers. None of them has a package generator.
\<close>

definition fresh_context_monitor :: context_monitor where
  "fresh_context_monitor = cw_init True cw_default_state None"

definition running_session :: session_monitor where
  "running_session = start_session (sd_init True True 5 4.5 4.75 sd_default_state None) 0 None"

definition fired_context_monitor :: context_monitor where
  "fired_context_monitor =
     cw_init True
       (cw_default_state\<lparr> warning_triggered := True, critical_triggered := True,
                          estimated_context_usage := 0.97,
                          conversation_exchanges_since_base := 7 \<rparr>) None"

definition fired_session_monitor :: session_monitor where
  "fired_session_monitor =
     sd_init True True 5 4.5 4.75
       (sd_default_state\<lparr> session_start := Some 0, last_activity := Some 17000,
                          code_yellow_triggered := True, code_orange_triggered := True,
                          session_id := Some (Named ''work''), total_exchanges := 12,
                          emergency_backups_created := 1 \<rparr>) None"

definition fired_coordinator :: coordinator where
  "fired_coordinator =
     co_init True True True True (co_default_state\<lparr>total_triggers_fired := 4\<rparr>)
       (Some fired_session_monitor) (Some (cr_init True None)) (Some fired_context_monitor)"

section \<open>Verified properties\<close>

subsection \<open>Usage estimate and the exchange count floor\<close>

lemma scan_ratio_text: "scan_indicators context_indicators ''10/100 tokens'' = Inr (Some (1 / 10))"
  by code_simp

lemma scan_plain_text: "scan_indicators context_indicators ''hello world'' = Inr None"
  by code_simp

lemma estimate_without_indicator:
  assumes "scan_indicators context_indicators text = Inr None"
  shows "estimate_context_usage m text =
           Inr (min (max (real (length text) / 4 / real (max_context_estimate m))
                       (exchange_floor m)) 1)"
  using assms by (simp add: estimate_context_usage_def exchange_floor_def Let_def)

text \<open>
  Claim C1, as stated: for every text and every state the estimate is the maximum of the
  heuristics and never below the floor
  \<open>estimated_context_usage + conversation_exchanges_since_base * 0.015\<close>, also for a text
  with an explicit ratio. This fails: an explicit indicator is returned at once, before
  the floor is looked at. With a stored usage of 0.5 and the text \<open>10/100 tokens\<close> the
  estimate is 0.1, below the floor 0.5.
\<close>

theorem estimate_below_floor_counterexample:
  "estimate_context_usage
       (cw_init True (cw_default_state\<lparr>estimated_context_usage := 0.5\<rparr>) None)
       ''10/100 tokens'' = Inr 0.1
   \<and> exchange_floor (cw_init True (cw_default_state\<lparr>estimated_context_usage := 0.5\<rparr>) None) = 0.5
   \<and> (0.1 :: real)
       < exchange_floor (cw_init True (cw_default_state\<lparr>estimated_context_usage := 0.5\<rparr>) None)"
  by (simp add: estimate_context_usage_def scan_ratio_text exchange_floor_def cw_init_def
      cw_default_state_def)

text \<open>
  Claim C1, amended: for every state and every text in which method 1 finds no explicit
  indicator value, the estimate is the maximum of the length heuristic and the floor,
  clamped to 1; so it is never below the smaller of the floor and 1.
\<close>

theorem estimate_floor_without_indicator:
  assumes "scan_indicators context_indicators text = Inr None"
  shows "estimate_context_usage m text =
           Inr (min (max (real (length text) / 4 / real (max_context_estimate m))
                       (exchange_floor m)) 1)
         \<and> (\<exists>u. estimate_context_usage m text = Inr u \<and> min (exchange_floor m) 1 \<le> u)"
  using estimate_without_indicator [OF assms, of m] by simp

theorem estimate_floor_without_indicator_witness:
  "scan_indicators context_indicators ''hello world'' = Inr None
   \<and> (\<exists>u. estimate_context_usage
              (cw_init True (cw_default_state\<lparr>estimated_context_usage := 0.5\<rparr>) None)
              ''hello world'' = Inr u
          \<and> min (exchange_floor
                   (cw_init True (cw_default_state\<lparr>estimated_context_usage := 0.5\<rparr>) None)) 1
              \<le> u)"
  using estimate_floor_without_indicator [OF scan_plain_text,
      of "cw_init True (cw_default_state\<lparr>estimated_context_usage := 0.5\<rparr>) None"]
    scan_plain_text
  by blast

subsection \<open>One evaluation of the context thresholds\<close>

lemma scan_test_text:
  "scan_indicators context_indicators ''Test conversation with 95% context usage''
     = Inr (Some (95 / 100))"
  by code_simp

lemma estimate_test_text:
  "estimate_context_usage m ''Test conversation with 95% context usage'' = Inr (95 / 100)"
  by (simp add: estimate_context_usage_def scan_test_text)

lemma check_context_raises:
  "estimate_context_usage m t = Inl e \<Longrightarrow> check_context_thresholds m now t = (Inl e, m)"
  by (simp add: check_context_thresholds_def)

lemma check_context_cases:
  "estimate_context_usage m t = Inr u \<Longrightarrow>
   check_context_thresholds m now t =
     (let st = (cw_state m)\<lparr>estimated_context_usage := u\<rparr>
      in if critical_threshold m \<le> u \<and> \<not> critical_triggered (cw_state m)
         then (Inr \<lparr> current_usage = u, warning_threshold_crossed = False,
                  critical_threshold_crossed = True,
                  cw_action_required = Some ''critical_backup'',
                  cw_message = Some (if base_context_created (cw_state m)
                                     then CriticalDeltaMessage u else CriticalFullMessage u),
                  cw_backup_type = Some (if base_context_created (cw_state m)
                                         then ''delta_session'' else ''full_backup'') \<rparr>,
               m\<lparr>cw_state := st\<lparr>critical_triggered := True, last_check := Some now\<rparr>\<rparr>)
         else if warning_threshold m \<le> u \<and> \<not> warning_triggered (cw_state m)
         then (Inr \<lparr> current_usage = u, warning_threshold_crossed = True,
                  critical_threshold_crossed = False,
                  cw_action_required = Some ''warning_backup'',
                  cw_message = Some (WarningMessage u),
                  cw_backup_type = Some ''base_context'' \<rparr>,
               m\<lparr>cw_state := st\<lparr>warning_triggered := True, last_check := Some now\<rparr>\<rparr>)
         else (Inr \<lparr> current_usage = u, warning_threshold_crossed = False,
                  critical_threshold_crossed = False, cw_action_required = None,
                  cw_message = None, cw_backup_type = None \<rparr>,
               m\<lparr>cw_state := st\<lparr>last_check := Some now\<rparr>\<rparr>))"
  by (simp add: check_context_thresholds_def cw_save_state_def Let_def)

text \<open>
  Claim C9: one evaluation of the context thresholds reports at most one of the warning
  and the critical crossing; when the usage is at or above the critical threshold and both
  flags are unset, it reports the critical crossing only and leaves the warning flag unset.
\<close>

theorem context_crossings_exclusive:
  "\<not> (reported warning_threshold_crossed (fst (check_context_thresholds m now t))
       \<and> reported critical_threshold_crossed (fst (check_context_thresholds m now t)))
   \<and> (estimate_context_usage m t = Inr u \<and> critical_threshold m \<le> u
        \<and> \<not> critical_triggered (cw_state m) \<and> \<not> warning_triggered (cw_state m)
      \<longrightarrow> reported critical_threshold_crossed (fst (check_context_thresholds m now t))
          \<and> \<not> reported warning_threshold_crossed (fst (check_context_thresholds m now t))
          \<and> \<not> warning_triggered (cw_state (snd (check_context_thresholds m now t))))"
proof (cases "estimate_context_usage m t")
  case (Inl e)
  then show ?thesis by (simp add: check_context_raises reported_def)
next
  case (Inr v)
  then show ?thesis by (simp add: check_context_cases reported_def Let_def)
qed

theorem context_crossings_exclusive_witness:
  "estimate_context_usage (cw_init True cw_default_state None)
       ''Test conversation with 95% context usage'' = Inr (95 / 100)
   \<and> critical_threshold (cw_init True cw_default_state None) \<le> 95 / 100
   \<and> \<not> critical_triggered (cw_state (cw_init True cw_default_state None))
   \<and> \<not> warning_triggered (cw_state (cw_init True cw_default_state None))
   \<and> reported critical_threshold_crossed (fst (check_context_thresholds
         (cw_init True cw_default_state None) 0 ''Test conversation with 95% context usage''))
   \<and> \<not> reported warning_threshold_crossed (fst (check_context_thresholds
         (cw_init True cw_default_state None) 0 ''Test conversation with 95% context usage''))
   \<and> \<not> warning_triggered (cw_state (snd (check_context_thresholds
         (cw_init True cw_default_state None) 0 ''Test conversation with 95% context usage'')))"
proof -
  have a: "estimate_context_usage (cw_init True cw_default_state None)
       ''Test conversation with 95% context usage'' = Inr (95 / 100)"
    by (rule estimate_test_text)
  have b: "critical_threshold (cw_init True cw_default_state None) \<le> 95 / 100"
    "\<not> critical_triggered (cw_state (cw_init True cw_default_state None))"
    "\<not> warning_triggered (cw_state (cw_init True cw_default_state None))"
    by (simp_all add: cw_init_def cw_default_state_def)
  from context_crossings_exclusive [of "cw_init True cw_default_state None" 0
      "''Test conversation with 95% context usage''" "95 / 100"] a b
  show ?thesis by blast
qed

subsection \<open>No session, no duration\<close>

text \<open>
  Claim C10: while \<open>session_start\<close> is unset, \<open>get_session_duration\<close> is exactly 0 and an
  evaluation of the duration thresholds reports neither code yellow nor code orange nor
  the session limit, whatever the positive thresholds are.
\<close>

theorem no_session_no_crossing:
  assumes "session_start (sd_state m) = None"
    and "0 < session_limit m" and "0 < code_orange_threshold m" and "0 < code_yellow_threshold m"
  shows "get_session_duration m now = 0
         \<and> \<not> code_yellow_crossed (fst (check_session_thresholds m now now2))
         \<and> \<not> code_orange_crossed (fst (check_session_thresholds m now now2))
         \<and> \<not> session_limit_exceeded (fst (check_session_thresholds m now now2))"
  using assms by (simp add: get_session_duration_def check_session_thresholds_def Let_def)

theorem no_session_no_crossing_witness:
  "session_start (sd_state (sd_init True True 5 4.5 4.75 sd_default_state None)) = None
   \<and> 0 < session_limit (sd_init True True 5 4.5 4.75 sd_default_state None)
   \<and> 0 < code_orange_threshold (sd_init True True 5 4.5 4.75 sd_default_state None)
   \<and> 0 < code_yellow_threshold (sd_init True True 5 4.5 4.75 sd_default_state None)
   \<and> get_session_duration (sd_init True True 5 4.5 4.75 sd_default_state None) 36000 = 0
   \<and> \<not> code_yellow_crossed (fst (check_session_thresholds
          (sd_init True True 5 4.5 4.75 sd_default_state None) 36000 36001))
   \<and> \<not> code_orange_crossed (fst (check_session_thresholds
          (sd_init True True 5 4.5 4.75 sd_default_state None) 36000 36001))
   \<and> \<not> session_limit_exceeded (fst (check_session_thresholds
          (sd_init True True 5 4.5 4.75 sd_default_state None) 36000 36001))"
proof -
  have a: "session_start (sd_state (sd_init True True 5 4.5 4.75 sd_default_state None)) = None"
    by (simp add: sd_init_def sd_default_state_def)
  have b: "0 < session_limit (sd_init True True 5 4.5 4.75 sd_default_state None)"
    by (simp add: sd_init_def)
  have c: "0 < code_orange_threshold (sd_init True True 5 4.5 4.75 sd_default_state None)"
    by (simp add: sd_init_def)
  have d: "0 < code_yellow_threshold (sd_init True True 5 4.5 4.75 sd_default_state None)"
    by (simp add: sd_init_def)
  from no_session_no_crossing [OF a b c d, of 36000 36001] a b c d show ?thesis
    by blast
qed

subsection \<open>Repeated evaluations of the thresholds\<close>

lemma context_checks_Nil: "fst (context_checks m []) = []" "snd (context_checks m []) = m"
  by simp_all

lemma context_checks_Cons:
  "fst (context_checks m ((now, t) # calls)) =
     fst (check_context_thresholds m now t)
       # fst (context_checks (snd (check_context_thresholds m now t)) calls)"
  "snd (context_checks m ((now, t) # calls)) =
     snd (context_checks (snd (check_context_thresholds m now t)) calls)"
  by (simp_all split: prod.splits)

lemma session_checks_Nil: "fst (session_checks m []) = []" "snd (session_checks m []) = m"
  by simp_all

lemma session_checks_Cons:
  "fst (session_checks m ((now, now2) # calls)) =
     fst (check_session_thresholds m now now2)
       # fst (session_checks (snd (check_session_thresholds m now now2)) calls)"
  "snd (session_checks m ((now, now2) # calls)) =
     snd (session_checks (snd (check_session_thresholds m now now2)) calls)"
  by (simp_all split: prod.splits)

text \<open>What one evaluation does to a flag: it stays set; it is set exactly by a report.\<close>

lemma critical_flag_step:
  "critical_triggered (cw_state (snd (check_context_thresholds m now t)))
     = (critical_triggered (cw_state m)
        \<or> reported critical_threshold_crossed (fst (check_context_thresholds m now t)))"
  "critical_triggered (cw_state m)
     \<Longrightarrow> \<not> reported critical_threshold_crossed (fst (check_context_thresholds m now t))"
proof (cases "estimate_context_usage m t")
  case (Inl e)
  then show "critical_triggered (cw_state (snd (check_context_thresholds m now t)))
     = (critical_triggered (cw_state m)
        \<or> reported critical_threshold_crossed (fst (check_context_thresholds m now t)))"
    by (simp add: check_context_raises reported_def)
next
  case (Inr u)
  then show "critical_triggered (cw_state (snd (check_context_thresholds m now t)))
     = (critical_triggered (cw_state m)
        \<or> reported critical_threshold_crossed (fst (check_context_thresholds m now t)))"
    by (simp add: check_context_cases reported_def Let_def)
next
  assume "critical_triggered (cw_state m)"
  then show "\<not> reported critical_threshold_crossed (fst (check_context_thresholds m now t))"
    by (cases "estimate_context_usage m t")
      (simp_all add: check_context_raises check_context_cases reported_def Let_def)
qed

lemma warning_flag_step:
  "warning_triggered (cw_state (snd (check_context_thresholds m now t)))
     = (warning_triggered (cw_state m)
        \<or> reported warning_threshold_crossed (fst (check_context_thresholds m now t)))"
  "warning_triggered (cw_state m)
     \<Longrightarrow> \<not> reported warning_threshold_crossed (fst (check_context_thresholds m now t))"
proof (cases "estimate_context_usage m t")
  case (Inl e)
  then show "warning_triggered (cw_state (snd (check_context_thresholds m now t)))
     = (warning_triggered (cw_state m)
        \<or> reported warning_threshold_crossed (fst (check_context_thresholds m now t)))"
    by (simp add: check_context_raises reported_def)
next
  case (Inr u)
  then show "warning_triggered (cw_state (snd (check_context_thresholds m now t)))
     = (warning_triggered (cw_state m)
        \<or> reported warning_threshold_crossed (fst (check_context_thresholds m now t)))"
    by (simp add: check_context_cases reported_def Let_def)
next
  assume "warning_triggered (cw_state m)"
  then show "\<not> reported warning_threshold_crossed (fst (check_context_thresholds m now t))"
    by (cases "estimate_context_usage m t")
      (simp_all add: check_context_raises check_context_cases reported_def Let_def)
qed

lemma orange_flag_step:
  "code_orange_triggered (sd_state (snd (check_session_thresholds m now now2)))
     = (code_orange_triggered (sd_state m)
        \<or> code_orange_crossed (fst (check_session_thresholds m now now2)))"
  "code_orange_triggered (sd_state m)
     \<Longrightarrow> \<not> code_orange_crossed (fst (check_session_thresholds m now now2))"
  by (simp_all add: check_session_thresholds_def Let_def)

lemma yellow_flag_step:
  "code_yellow_triggered (sd_state (snd (check_session_thresholds m now now2)))
     = (code_yellow_triggered (sd_state m)
        \<or> code_yellow_crossed (fst (check_session_thresholds m now now2)))"
  "code_yellow_triggered (sd_state m)
     \<Longrightarrow> \<not> code_yellow_crossed (fst (check_session_thresholds m now now2))"
  by (simp_all add: check_session_thresholds_def Let_def)

text \<open>
  The one-shot argument, once for all four flags: \<open>step\<close> is one evaluation, \<open>flag\<close> the
  flag of the state and \<open>rep\<close> the report of the result.
\<close>

lemma silent_after:
  assumes stay: "\<And>m x. flag m \<Longrightarrow> \<not> rep (fst (step m x)) \<and> flag (snd (step m x))"
    and run_Nil: "\<And>m. run m [] = ([], m)"
    and run_Cons: "\<And>m x xs. run m (x # xs) =
           (fst (step m x) # fst (run (snd (step m x)) xs), snd (run (snd (step m x)) xs))"
    and "flag m"
  shows "map rep (fst (run m xs)) = replicate (length xs) False \<and> flag (snd (run m xs))"
  using \<open>flag m\<close>
proof (induction xs arbitrary: m)
  case Nil
  then show ?case by (simp add: run_Nil)
next
  case (Cons x xs)
  from stay [OF Cons.prems, of x] Cons.IH [of "snd (step m x)"]
  show ?case by (simp add: run_Cons)
qed

lemma at_most_once:
  assumes stay: "\<And>m x. flag m \<Longrightarrow> \<not> rep (fst (step m x)) \<and> flag (snd (step m x))"
    and sets: "\<And>m x. rep (fst (step m x)) \<Longrightarrow> flag (snd (step m x))"
    and run_Nil: "\<And>m. run m [] = ([], m)"
    and run_Cons: "\<And>m x xs. run m (x # xs) =
           (fst (step m x) # fst (run (snd (step m x)) xs), snd (run (snd (step m x)) xs))"
  shows "length (filter rep (fst (run m xs))) \<le> 1"
proof (induction xs arbitrary: m)
  case Nil
  show ?case by (simp add: run_Nil)
next
  case (Cons x xs)
  show ?case
  proof (cases "rep (fst (step m x))")
    case True
    from silent_after [of flag rep step run, OF stay run_Nil run_Cons sets [OF True], of xs]
    have "map rep (fst (run (snd (step m x)) xs)) = replicate (length xs) False"
      by simp
    then have "filter rep (fst (run (snd (step m x)) xs)) = []"
      by (metis (no_types, lifting) filter_False in_set_replicate list.set_map imageI)
    with True show ?thesis by (simp add: run_Cons)
  next
    case False
    with Cons.IH [of "snd (step m x)"] show ?thesis by (simp add: run_Cons)
  qed
qed

lemma context_run:
  "context_checks m [] = ([], m)"
  "context_checks m (x # xs) =
     (fst (check_context_thresholds m (fst x) (snd x))
        # fst (context_checks (snd (check_context_thresholds m (fst x) (snd x))) xs),
      snd (context_checks (snd (check_context_thresholds m (fst x) (snd x))) xs))"
  by (simp, cases x) (simp split: prod.splits)

lemma session_run:
  "session_checks m [] = ([], m)"
  "session_checks m (x # xs) =
     (fst (check_session_thresholds m (fst x) (snd x))
        # fst (session_checks (snd (check_session_thresholds m (fst x) (snd x))) xs),
      snd (session_checks (snd (check_session_thresholds m (fst x) (snd x))) xs))"
  by (simp, cases x) (simp split: prod.splits)

lemma critical_silent_after:
  "critical_triggered (cw_state m) \<Longrightarrow>
   map (reported critical_threshold_crossed) (fst (context_checks m calls))
     = replicate (length calls) False
   \<and> critical_triggered (cw_state (snd (context_checks m calls)))"
  by (rule silent_after [where step = "\<lambda>m x. check_context_thresholds m (fst x) (snd x)"
        and flag = "\<lambda>m. critical_triggered (cw_state m)"])
    (simp_all add: critical_flag_step context_run)

lemma warning_silent_after:
  "warning_triggered (cw_state m) \<Longrightarrow>
   map (reported warning_threshold_crossed) (fst (context_checks m calls))
     = replicate (length calls) False
   \<and> warning_triggered (cw_state (snd (context_checks m calls)))"
  by (rule silent_after [where step = "\<lambda>m x. check_context_thresholds m (fst x) (snd x)"
        and flag = "\<lambda>m. warning_triggered (cw_state m)"])
    (simp_all add: warning_flag_step context_run)

lemma orange_silent_after:
  "code_orange_triggered (sd_state m) \<Longrightarrow>
   map code_orange_crossed (fst (session_checks m calls)) = replicate (length calls) False
   \<and> code_orange_triggered (sd_state (snd (session_checks m calls)))"
  by (rule silent_after [where step = "\<lambda>m x. check_session_thresholds m (fst x) (snd x)"
        and flag = "\<lambda>m. code_orange_triggered (sd_state m)"])
    (simp_all add: orange_flag_step session_run)

lemma yellow_silent_after:
  "code_yellow_triggered (sd_state m) \<Longrightarrow>
   map code_yellow_crossed (fst (session_checks m calls)) = replicate (length calls) False
   \<and> code_yellow_triggered (sd_state (snd (session_checks m calls)))"
  by (rule silent_after [where step = "\<lambda>m x. check_session_thresholds m (fst x) (snd x)"
        and flag = "\<lambda>m. code_yellow_triggered (sd_state m)"])
    (simp_all add: yellow_flag_step session_run)

lemma critical_at_most_once:
  "length (filter (reported critical_threshold_crossed) (fst (context_checks m calls))) \<le> 1"
  by (rule at_most_once [where step = "\<lambda>m x. check_context_thresholds m (fst x) (snd x)"
        and flag = "\<lambda>m. critical_triggered (cw_state m)"])
    (simp_all add: critical_flag_step context_run)

lemma warning_at_most_once:
  "length (filter (reported warning_threshold_crossed) (fst (context_checks m calls))) \<le> 1"
  by (rule at_most_once [where step = "\<lambda>m x. check_context_thresholds m (fst x) (snd x)"
        and flag = "\<lambda>m. warning_triggered (cw_state m)"])
    (simp_all add: warning_flag_step context_run)

lemma orange_at_most_once:
  "length (filter code_orange_crossed (fst (session_checks m calls))) \<le> 1"
  by (rule at_most_once [where step = "\<lambda>m x. check_session_thresholds m (fst x) (snd x)"
        and flag = "\<lambda>m. code_orange_triggered (sd_state m)"])
    (simp_all add: orange_flag_step session_run)

lemma yellow_at_most_once:
  "length (filter code_yellow_crossed (fst (session_checks m calls))) \<le> 1"
  by (rule at_most_once [where step = "\<lambda>m x. check_session_thresholds m (fst x) (snd x)"
        and flag = "\<lambda>m. code_yellow_triggered (sd_state m)"])
    (simp_all add: yellow_flag_step session_run)

text \<open>The first evaluation in the band of a threshold reports it; the rest is silent.\<close>

lemma critical_once:
  assumes "\<not> critical_triggered (cw_state m)"
    and "estimate_context_usage m t = Inr u" and "critical_threshold m \<le> u"
  shows "map (reported critical_threshold_crossed) (fst (context_checks m ((now, t) # rest)))
           = True # replicate (length rest) False
         \<and> critical_triggered (cw_state (snd (context_checks m ((now, t) # rest))))"
proof -
  from assms have "reported critical_threshold_crossed (fst (check_context_thresholds m now t))"
    by (simp add: check_context_cases reported_def Let_def)
  moreover from this
  have "critical_triggered (cw_state (snd (check_context_thresholds m now t)))"
    by (simp add: critical_flag_step)
  note critical_silent_after [OF this, of rest]
  ultimately show ?thesis
    by (simp add: context_checks_Cons del: context_checks.simps)
qed

lemma warning_once:
  assumes "\<not> warning_triggered (cw_state m)"
    and "estimate_context_usage m t = Inr u" and "warning_threshold m \<le> u"
    and "u < critical_threshold m \<or> critical_triggered (cw_state m)"
  shows "map (reported warning_threshold_crossed) (fst (context_checks m ((now, t) # rest)))
           = True # replicate (length rest) False
         \<and> warning_triggered (cw_state (snd (context_checks m ((now, t) # rest))))"
proof -
  from assms have "reported warning_threshold_crossed (fst (check_context_thresholds m now t))"
    by (auto simp: check_context_cases reported_def Let_def)
  moreover from this
  have "warning_triggered (cw_state (snd (check_context_thresholds m now t)))"
    by (simp add: warning_flag_step)
  note warning_silent_after [OF this, of rest]
  ultimately show ?thesis
    by (simp add: context_checks_Cons del: context_checks.simps)
qed

lemma orange_once:
  assumes "\<not> code_orange_triggered (sd_state m)"
    and "code_orange_threshold m \<le> get_session_duration m now"
    and "get_session_duration m now < session_limit m"
  shows "map code_orange_crossed (fst (session_checks m ((now, now2) # rest)))
           = True # replicate (length rest) False
         \<and> code_orange_triggered (sd_state (snd (session_checks m ((now, now2) # rest))))"
proof -
  from assms have "code_orange_crossed (fst (check_session_thresholds m now now2))"
    by (simp add: check_session_thresholds_def Let_def)
  moreover from this
  have "code_orange_triggered (sd_state (snd (check_session_thresholds m now now2)))"
    by (simp add: orange_flag_step)
  note orange_silent_after [OF this, of rest]
  ultimately show ?thesis
    by (simp add: session_checks_Cons del: session_checks.simps)
qed

lemma yellow_once:
  assumes "\<not> code_yellow_triggered (sd_state m)"
    and "code_yellow_threshold m \<le> get_session_duration m now"
    and "get_session_duration m now < session_limit m"
    and "get_session_duration m now < code_orange_threshold m
         \<or> code_orange_triggered (sd_state m)"
  shows "map code_yellow_crossed (fst (session_checks m ((now, now2) # rest)))
           = True # replicate (length rest) False
         \<and> code_yellow_triggered (sd_state (snd (session_checks m ((now, now2) # rest))))"
proof -
  from assms have "code_yellow_crossed (fst (check_session_thresholds m now now2))"
    by (auto simp: check_session_thresholds_def Let_def)
  moreover from this
  have "code_yellow_triggered (sd_state (snd (check_session_thresholds m now now2)))"
    by (simp add: yellow_flag_step)
  note yellow_silent_after [OF this, of rest]
  ultimately show ?thesis
    by (simp add: session_checks_Cons del: session_checks.simps)
qed

text \<open>The session limit has no flag.\<close>

lemma check_session_duration:
  "session_duration_hours (fst (check_session_thresholds m now now2)) = get_session_duration m now"
  by (simp add: check_session_thresholds_def Let_def)

lemma check_session_frame:
  "session_limit (snd (check_session_thresholds m now now2)) = session_limit m"
  "code_orange_threshold (snd (check_session_thresholds m now now2)) = code_orange_threshold m"
  "code_yellow_threshold (snd (check_session_thresholds m now now2)) = code_yellow_threshold m"
  "get_session_duration (snd (check_session_thresholds m now now2)) t = get_session_duration m t"
  by (simp_all add: check_session_thresholds_def get_session_duration_def Let_def)

lemma limit_step:
  "session_limit_exceeded (fst (check_session_thresholds m now now2))
     = (session_limit m \<le> get_session_duration m now)"
  by (simp add: check_session_thresholds_def Let_def)

lemma limit_every_time:
  "map session_limit_exceeded (fst (session_checks m calls))
     = map (\<lambda>call. session_limit m \<le> get_session_duration m (fst call)) calls"
proof (induction calls arbitrary: m)
  case Nil
  show ?case by simp
next
  case (Cons call calls)
  obtain now now2 where call: "call = (now, now2)" by (cases call) auto
  show ?case
    by (simp add: call session_checks_Cons Cons.IH limit_step check_session_frame
        del: session_checks.simps)
qed

text \<open>
  Claim C2, amended: starting with the flag of a threshold unset, when the signal of the
  first evaluation lies in the band of that threshold, the first evaluation reports the
  crossing and sets the flag, and no later evaluation reports it, whatever the later
  signals are. The bands: at or above the critical threshold for the context critical
  crossing; at or above the warning threshold, and below the critical threshold unless
  the critical flag is already set, for the context warning; from the orange threshold up
  to, but below, the session limit for code orange; from the yellow threshold up to, but
  below, the limit, and below the orange threshold unless the orange flag is already set,
  for code yellow. In any sequence of evaluations from any state each of these four
  crossings is reported at most once. The session limit has no flag: an evaluation reports
  \<open>session_limit_exceeded\<close> exactly when its duration is at or above the limit, every
  time.
\<close>

theorem one_shot_thresholds:
  "(\<not> critical_triggered (cw_state m1)
      \<and> estimate_context_usage m1 t1 = Inr u1 \<and> critical_threshold m1 \<le> u1
     \<longrightarrow> map (reported critical_threshold_crossed) (fst (context_checks m1 ((n1, t1) # calls1)))
           = True # replicate (length calls1) False
         \<and> critical_triggered (cw_state (snd (context_checks m1 ((n1, t1) # calls1)))))
   \<and> (\<not> warning_triggered (cw_state m2)
      \<and> estimate_context_usage m2 t2 = Inr u2 \<and> warning_threshold m2 \<le> u2
      \<and> (u2 < critical_threshold m2 \<or> critical_triggered (cw_state m2))
     \<longrightarrow> map (reported warning_threshold_crossed) (fst (context_checks m2 ((n2, t2) # calls2)))
           = True # replicate (length calls2) False
         \<and> warning_triggered (cw_state (snd (context_checks m2 ((n2, t2) # calls2)))))
   \<and> (\<not> code_orange_triggered (sd_state m3)
      \<and> code_orange_threshold m3 \<le> get_session_duration m3 n3
      \<and> get_session_duration m3 n3 < session_limit m3
     \<longrightarrow> map code_orange_crossed (fst (session_checks m3 ((n3, n3') # calls3)))
           = True # replicate (length calls3) False
         \<and> code_orange_triggered (sd_state (snd (session_checks m3 ((n3, n3') # calls3)))))
   \<and> (\<not> code_yellow_triggered (sd_state m4)
      \<and> code_yellow_threshold m4 \<le> get_session_duration m4 n4
      \<and> get_session_duration m4 n4 < session_limit m4
      \<and> (get_session_duration m4 n4 < code_orange_threshold m4
          \<or> code_orange_triggered (sd_state m4))
     \<longrightarrow> map code_yellow_crossed (fst (session_checks m4 ((n4, n4') # calls4)))
           = True # replicate (length calls4) False
         \<and> code_yellow_triggered (sd_state (snd (session_checks m4 ((n4, n4') # calls4)))))
   \<and> length (filter (reported critical_threshold_crossed) (fst (context_checks m5 calls5))) \<le> 1
   \<and> length (filter (reported warning_threshold_crossed) (fst (context_checks m5 calls5))) \<le> 1
   \<and> length (filter code_orange_crossed (fst (session_checks m6 calls6))) \<le> 1
   \<and> length (filter code_yellow_crossed (fst (session_checks m6 calls6))) \<le> 1
   \<and> map session_limit_exceeded (fst (session_checks m6 calls6))
       = map (\<lambda>call. session_limit m6 \<le> get_session_duration m6 (fst call)) calls6"
  using critical_once [of m1 t1 u1 n1 calls1] warning_once [of m2 t2 u2 n2 calls2]
    orange_once [of m3 n3 n3' calls3] yellow_once [of m4 n4 n4' calls4]
    critical_at_most_once [of m5 calls5] warning_at_most_once [of m5 calls5]
    orange_at_most_once [of m6 calls6] yellow_at_most_once [of m6 calls6]
    limit_every_time [of m6 calls6]
  by blast

text \<open>The examples: a fresh context monitor and a session started at time 0.\<close>

lemma scan_warning_text:
  "scan_indicators context_indicators ''92% context usage'' = Inr (Some (92 / 100))"
  by code_simp

lemma estimate_warning_text: "estimate_context_usage m ''92% context usage'' = Inr (92 / 100)"
  by (simp add: estimate_context_usage_def scan_warning_text)

lemma fresh_context_fields:
  "critical_threshold fresh_context_monitor = 0.95" "warning_threshold fresh_context_monitor = 0.90"
  "\<not> critical_triggered (cw_state fresh_context_monitor)"
  "\<not> warning_triggered (cw_state fresh_context_monitor)"
  by (simp_all add: fresh_context_monitor_def cw_init_def cw_default_state_def)

lemma running_session_fields:
  "session_limit running_session = 5" "code_orange_threshold running_session = 4.75"
  "code_yellow_threshold running_session = 4.5"
  "\<not> code_orange_triggered (sd_state running_session)"
  "\<not> code_yellow_triggered (sd_state running_session)"
  "get_session_duration running_session t = t / 3600"
  by (simp_all add: running_session_def start_session_def start_monitoring_thread_def
      sd_init_def get_session_duration_def Let_def)

lemma check_context_frame:
  "critical_threshold (snd (check_context_thresholds m now t)) = critical_threshold m"
  "warning_threshold (snd (check_context_thresholds m now t)) = warning_threshold m"
  by (cases "estimate_context_usage m t";
      simp add: check_context_raises check_context_cases Let_def)+

lemma critical_fires_alone:
  assumes "\<not> critical_triggered (cw_state m)" and "\<not> warning_triggered (cw_state m)"
    and "estimate_context_usage m t = Inr u" and "critical_threshold m \<le> u"
  shows "\<not> reported warning_threshold_crossed (fst (check_context_thresholds m now t))"
    and "critical_triggered (cw_state (snd (check_context_thresholds m now t)))"
    and "\<not> warning_triggered (cw_state (snd (check_context_thresholds m now t)))"
  using assms by (simp_all add: check_context_cases reported_def Let_def)

lemma orange_fires_alone:
  assumes "\<not> code_orange_triggered (sd_state m)" and "\<not> code_yellow_triggered (sd_state m)"
    and "code_orange_threshold m \<le> get_session_duration m now"
    and "get_session_duration m now < session_limit m"
  shows "\<not> code_yellow_crossed (fst (check_session_thresholds m now now2))"
    and "code_orange_triggered (sd_state (snd (check_session_thresholds m now now2)))"
    and "\<not> code_yellow_triggered (sd_state (snd (check_session_thresholds m now now2)))"
  using assms by (simp_all add: check_session_thresholds_def Let_def)

text \<open>
  Claim C2, as stated: every threshold, the 5 hour limit included, is reported by the first
  evaluation at or above it and by no later one. This fails. A session that has run for 5.5
  hours reports \<open>session_limit_exceeded\<close> in both of two evaluations. With the usage
  at 0.95 from a fresh state, the first evaluation reports the critical crossing and the
  second one the warning; 4.8 hours into a session, the first evaluation reports code
  orange and the second one code yellow.
\<close>

theorem session_limit_repeats_counterexample:
  "map session_limit_exceeded
      (fst (session_checks running_session [(19800, 19801), (19860, 19861)])) = [True, True]
   \<and> map (reported warning_threshold_crossed) (fst (context_checks fresh_context_monitor
      [(0, ''Test conversation with 95% context usage''),
       (60, ''Test conversation with 95% context usage'')])) = [False, True]
   \<and> map code_yellow_crossed
      (fst (session_checks running_session [(17280, 17281), (17340, 17341)])) = [False, True]"
proof -
  have a: "map session_limit_exceeded
      (fst (session_checks running_session [(19800, 19801), (19860, 19861)])) = [True, True]"
    by (simp add: limit_every_time running_session_fields del: session_checks.simps)
  note c1 = critical_fires_alone [of fresh_context_monitor
      "''Test conversation with 95% context usage''" "95 / 100" 0,
      OF fresh_context_fields(3,4) estimate_test_text]
  have thr: "critical_threshold fresh_context_monitor \<le> 95 / 100"
    by (simp add: fresh_context_fields)
  have b1: "\<not> reported warning_threshold_crossed (fst (check_context_thresholds
      fresh_context_monitor 0 ''Test conversation with 95% context usage''))"
    by (rule c1(1) [OF thr])
  have "map (reported warning_threshold_crossed) (fst (context_checks
      (snd (check_context_thresholds fresh_context_monitor 0
         ''Test conversation with 95% context usage''))
      [(60, ''Test conversation with 95% context usage'')])) = [True]"
    using warning_once [of "snd (check_context_thresholds fresh_context_monitor 0
         ''Test conversation with 95% context usage'')"
        "''Test conversation with 95% context usage''" "95 / 100" 60 "[]"]
      c1(2) [OF thr] c1(3) [OF thr]
    by (simp add: estimate_test_text check_context_frame fresh_context_fields
        del: context_checks.simps)
  with b1 have b: "map (reported warning_threshold_crossed) (fst (context_checks
      fresh_context_monitor
      [(0, ''Test conversation with 95% context usage''),
       (60, ''Test conversation with 95% context usage'')])) = [False, True]"
    by (simp add: context_checks_Cons(1) [of fresh_context_monitor] del: context_checks.simps)
  note o1 = orange_fires_alone [of running_session 17280 17281,
      OF running_session_fields(4,5)]
  have band: "code_orange_threshold running_session \<le> get_session_duration running_session 17280"
    "get_session_duration running_session 17280 < session_limit running_session"
    by (simp_all add: running_session_fields)
  have d1: "\<not> code_yellow_crossed (fst (check_session_thresholds running_session 17280 17281))"
    by (rule o1(1) [OF band])
  have "map code_yellow_crossed (fst (session_checks
      (snd (check_session_thresholds running_session 17280 17281)) [(17340, 17341)])) = [True]"
    using yellow_once [of "snd (check_session_thresholds running_session 17280 17281)"
        17340 17341 "[]"] o1(2) [OF band] o1(3) [OF band]
    by (simp add: check_session_frame running_session_fields del: session_checks.simps)
  with d1 have d: "map code_yellow_crossed
      (fst (session_checks running_session [(17280, 17281), (17340, 17341)])) = [False, True]"
    by (simp add: session_checks_Cons(1) [of running_session] del: session_checks.simps)
  from a b d show ?thesis by blast
qed

theorem one_shot_thresholds_witness:
  "\<not> critical_triggered (cw_state fresh_context_monitor)
   \<and> \<not> warning_triggered (cw_state fresh_context_monitor)
   \<and> \<not> code_orange_triggered (sd_state running_session)
   \<and> \<not> code_yellow_triggered (sd_state running_session)
   \<and> estimate_context_usage fresh_context_monitor ''Test conversation with 95% context usage''
       = Inr (95 / 100)
   \<and> critical_threshold fresh_context_monitor \<le> 95 / 100
   \<and> map (reported critical_threshold_crossed) (fst (context_checks fresh_context_monitor
        [(0, ''Test conversation with 95% context usage''), (60, ''hello world'')]))
       = [True, False]
   \<and> critical_triggered (cw_state (snd (context_checks fresh_context_monitor
        [(0, ''Test conversation with 95% context usage''), (60, ''hello world'')])))
   \<and> estimate_context_usage fresh_context_monitor ''92% context usage'' = Inr (92 / 100)
   \<and> warning_threshold fresh_context_monitor \<le> 92 / 100
   \<and> 92 / 100 < critical_threshold fresh_context_monitor
   \<and> map (reported warning_threshold_crossed) (fst (context_checks fresh_context_monitor
        [(0, ''92% context usage''), (60, ''Test conversation with 95% context usage'')]))
       = [True, False]
   \<and> warning_triggered (cw_state (snd (context_checks fresh_context_monitor
        [(0, ''92% context usage''), (60, ''Test conversation with 95% context usage'')])))
   \<and> code_orange_threshold running_session \<le> get_session_duration running_session 17280
   \<and> get_session_duration running_session 17280 < session_limit running_session
   \<and> map code_orange_crossed
        (fst (session_checks running_session [(17280, 17281), (19800, 19801)])) = [True, False]
   \<and> code_orange_triggered (sd_state (snd
        (session_checks running_session [(17280, 17281), (19800, 19801)])))
   \<and> code_yellow_threshold running_session \<le> get_session_duration running_session 16560
   \<and> get_session_duration running_session 16560 < code_orange_threshold running_session
   \<and> map code_yellow_crossed
        (fst (session_checks running_session [(16560, 16561), (17280, 17281)])) = [True, False]
   \<and> code_yellow_triggered (sd_state (snd
        (session_checks running_session [(16560, 16561), (17280, 17281)])))
   \<and> map session_limit_exceeded
        (fst (session_checks running_session [(19800, 19801), (19860, 19861)])) = [True, True]"
proof -
  have h1: "critical_threshold fresh_context_monitor \<le> 95 / 100"
    and h2: "warning_threshold fresh_context_monitor \<le> 92 / 100"
      "92 / 100 < critical_threshold fresh_context_monitor"
    by (simp_all add: fresh_context_fields)
  have h3: "code_orange_threshold running_session \<le> get_session_duration running_session 17280"
    "get_session_duration running_session 17280 < session_limit running_session"
    and h4: "code_yellow_threshold running_session \<le> get_session_duration running_session 16560"
      "get_session_duration running_session 16560 < session_limit running_session"
      "get_session_duration running_session 16560 < code_orange_threshold running_session"
    by (simp_all add: running_session_fields)
  note e1 = estimate_test_text [of fresh_context_monitor]
  note e2 = estimate_warning_text [of fresh_context_monitor]
  note inst = one_shot_thresholds [of fresh_context_monitor
      "''Test conversation with 95% context usage''" "95 / 100" 0 "[(60, ''hello world'')]"
      fresh_context_monitor "''92% context usage''" "92 / 100" 0
      "[(60, ''Test conversation with 95% context usage'')]"
      running_session 17280 17281 "[(19800, 19801)]"
      running_session 16560 16561 "[(17280, 17281)]"
      fresh_context_monitor "[]"
      running_session "[(19800, 19801), (19860, 19861)]"]
  from inst e1 h1 fresh_context_fields(3)
  have c1: "map (reported critical_threshold_crossed) (fst (context_checks fresh_context_monitor
        [(0, ''Test conversation with 95% context usage''), (60, ''hello world'')]))
       = [True, False]
     \<and> critical_triggered (cw_state (snd (context_checks fresh_context_monitor
        [(0, ''Test conversation with 95% context usage''), (60, ''hello world'')])))"
    by (simp del: context_checks.simps session_checks.simps)
  from inst e2 h2 fresh_context_fields(4)
  have c2: "map (reported warning_threshold_crossed) (fst (context_checks fresh_context_monitor
        [(0, ''92% context usage''), (60, ''Test conversation with 95% context usage'')]))
       = [True, False]
     \<and> warning_triggered (cw_state (snd (context_checks fresh_context_monitor
        [(0, ''92% context usage''), (60, ''Test conversation with 95% context usage'')])))"
    by (simp del: context_checks.simps session_checks.simps)
  from inst h3 running_session_fields(4)
  have c3: "map code_orange_crossed
        (fst (session_checks running_session [(17280, 17281), (19800, 19801)])) = [True, False]
     \<and> code_orange_triggered (sd_state (snd
        (session_checks running_session [(17280, 17281), (19800, 19801)])))"
    by (simp del: context_checks.simps session_checks.simps)
  from inst h4 running_session_fields(5)
  have c4: "map code_yellow_crossed
        (fst (session_checks running_session [(16560, 16561), (17280, 17281)])) = [True, False]
     \<and> code_yellow_triggered (sd_state (snd
        (session_checks running_session [(16560, 16561), (17280, 17281)])))"
    by (simp del: context_checks.simps session_checks.simps)
  note every_time = inst [THEN conjunct2, THEN conjunct2, THEN conjunct2, THEN conjunct2,
      THEN conjunct2, THEN conjunct2, THEN conjunct2, THEN conjunct2]
  from every_time have c5: "map session_limit_exceeded
        (fst (session_checks running_session [(19800, 19801), (19860, 19861)])) = [True, True]"
    by (simp add: running_session_fields del: session_checks.simps)
  from c1 c2 c3 c4 c5 e1 e2 h1 h2 h3 h4(1,3) fresh_context_fields(3,4)
    running_session_fields(4,5)
  show ?thesis by blast
qed

subsection \<open>Reset\<close>

lemma reset_all_context_mon:
  "context_mon (reset_all_monitoring c now) = map_option (\<lambda>cm. reset_monitoring cm now) (context_mon c)"
  by (simp add: reset_all_monitoring_def stop_unified_monitoring_def stop_coordination_thread_def
      Let_def split: option.splits)

lemma reset_all_session_mon:
  "session_mon (reset_all_monitoring c now)
     = map_option (\<lambda>sm. reset_session (stop_monitoring_thread sm)) (session_mon c)"
  by (simp add: reset_all_monitoring_def stop_unified_monitoring_def stop_coordination_thread_def
      Let_def split: option.splits)

lemma reset_all_co_state: "co_state (reset_all_monitoring c now) = co_default_state"
  by (simp add: reset_all_monitoring_def Let_def)

lemma reset_monitoring_state:
  "cw_state (reset_monitoring cm now) = cw_default_state\<lparr>last_check := Some now\<rparr>"
  by (simp add: reset_monitoring_def cw_save_state_def)

lemma reset_session_state: "sd_state (reset_session sm) = sd_default_state"
  by (simp add: reset_session_def)

lemma context_refires:
  assumes "\<not> critical_triggered (cw_state m)" and "\<not> warning_triggered (cw_state m)"
    and "estimate_context_usage m t = Inr u"
  shows "(critical_threshold m \<le> u \<longrightarrow>
            reported critical_threshold_crossed (fst (check_context_thresholds m now t))
            \<and> \<not> reported warning_threshold_crossed (fst (check_context_thresholds m now t)))
       \<and> (warning_threshold m \<le> u \<and> u < critical_threshold m \<longrightarrow>
            reported warning_threshold_crossed (fst (check_context_thresholds m now t)))"
  using assms by (simp add: check_context_cases reported_def Let_def)

lemma unstarted_session_silent:
  assumes "session_start (sd_state m) = None"
  shows "get_session_duration m t1 = 0"
    and "0 < session_limit m \<and> 0 < code_orange_threshold m \<and> 0 < code_yellow_threshold m \<longrightarrow>
           \<not> code_yellow_crossed (fst (check_session_thresholds m t1 t2))
           \<and> \<not> code_orange_crossed (fst (check_session_thresholds m t1 t2))
           \<and> \<not> session_limit_exceeded (fst (check_session_thresholds m t1 t2))"
  using assms by (simp_all add: get_session_duration_def check_session_thresholds_def Let_def)

lemma started_session_duration:
  "get_session_duration (start_session sm t0 sid) t1 = (t1 - t0) / 3600"
  by (simp add: get_session_duration_def start_session_def start_monitoring_thread_def Let_def)

lemma started_session_fields:
  "session_limit (start_session sm t0 sid) = session_limit sm"
  "code_orange_threshold (start_session sm t0 sid) = code_orange_threshold sm"
  "code_yellow_threshold (start_session sm t0 sid) = code_yellow_threshold sm"
  "\<not> code_orange_triggered (sd_state (start_session sm t0 sid))"
  "\<not> code_yellow_triggered (sd_state (start_session sm t0 sid))"
  by (simp_all add: start_session_def start_monitoring_thread_def Let_def)

lemma session_refires:
  assumes "\<not> code_orange_triggered (sd_state m)" and "\<not> code_yellow_triggered (sd_state m)"
  shows "(session_limit m \<le> get_session_duration m t1 \<longrightarrow>
            session_limit_exceeded (fst (check_session_thresholds m t1 t2)))
       \<and> (code_orange_threshold m \<le> get_session_duration m t1
            \<and> get_session_duration m t1 < session_limit m \<longrightarrow>
            code_orange_crossed (fst (check_session_thresholds m t1 t2)))
       \<and> (code_yellow_threshold m \<le> get_session_duration m t1
            \<and> get_session_duration m t1 < code_orange_threshold m
            \<and> get_session_duration m t1 < session_limit m \<longrightarrow>
            code_yellow_crossed (fst (check_session_thresholds m t1 t2)))"
  using assms by (simp add: check_session_thresholds_def Let_def)

lemma reset_monitoring_fields:
  "critical_threshold (reset_monitoring cm now) = critical_threshold cm"
  "warning_threshold (reset_monitoring cm now) = warning_threshold cm"
  by (simp_all add: reset_monitoring_def cw_save_state_def)

lemma reset_session_fields:
  "session_limit (reset_session sm) = session_limit sm"
  "code_orange_threshold (reset_session sm) = code_orange_threshold sm"
  "code_yellow_threshold (reset_session sm) = code_yellow_threshold sm"
  by (simp_all add: reset_session_def stop_monitoring_thread_def)

lemma fired_monitor_fields:
  "critical_threshold fired_context_monitor = 0.95"
  "warning_threshold fired_context_monitor = 0.90"
  "warning_triggered (cw_state fired_context_monitor)"
  "critical_triggered (cw_state fired_context_monitor)"
  "session_limit (stop_monitoring_thread fired_session_monitor) = 5"
  "code_orange_threshold (stop_monitoring_thread fired_session_monitor) = 4.75"
  "code_yellow_threshold (stop_monitoring_thread fired_session_monitor) = 4.5"
  "code_yellow_triggered (sd_state fired_session_monitor)"
  "code_orange_triggered (sd_state fired_session_monitor)"
  "context_mon fired_coordinator = Some fired_context_monitor"
  "session_mon fired_coordinator = Some fired_session_monitor"
  by (simp_all add: fired_context_monitor_def fired_session_monitor_def fired_coordinator_def
      cw_init_def sd_init_def co_init_def cw_default_state_def sd_default_state_def
      stop_monitoring_thread_def)

lemma fired_coordinator_reset:
  "context_mon (reset_all_monitoring fired_coordinator 18000)
     = Some (reset_monitoring fired_context_monitor 18000)"
  "session_mon (reset_all_monitoring fired_coordinator 18000)
     = Some (reset_session (stop_monitoring_thread fired_session_monitor))"
  by (simp_all add: reset_all_context_mon reset_all_session_mon fired_monitor_fields)

text \<open>
  Claim C7, as stated: after a reset, an evaluation with the signal at or above a
  threshold fires the trigger of that threshold. For the warning threshold this fails when
  the signal is also at or above the critical threshold: after the reset of a coordinator
  whose monitors had fired, an evaluation at a usage of 0.95, above the warning threshold
  0.90, reports no warning crossing (it reports the critical one).
\<close>

theorem reset_warning_not_fired_counterexample:
  "context_mon (reset_all_monitoring fired_coordinator 18000)
     = Some (reset_monitoring fired_context_monitor 18000)
   \<and> estimate_context_usage (reset_monitoring fired_context_monitor 18000)
        ''Test conversation with 95% context usage'' = Inr (95 / 100)
   \<and> warning_threshold (reset_monitoring fired_context_monitor 18000) \<le> 95 / 100
   \<and> \<not> warning_triggered (cw_state (reset_monitoring fired_context_monitor 18000))
   \<and> \<not> reported warning_threshold_crossed (fst (check_context_thresholds
         (reset_monitoring fired_context_monitor 18000) 18060
         ''Test conversation with 95% context usage''))"
proof -
  have flags: "\<not> critical_triggered (cw_state (reset_monitoring fired_context_monitor 18000))"
    "\<not> warning_triggered (cw_state (reset_monitoring fired_context_monitor 18000))"
    by (simp_all add: reset_monitoring_state cw_default_state_def)
  have thr: "critical_threshold (reset_monitoring fired_context_monitor 18000) \<le> 95 / 100"
    "warning_threshold (reset_monitoring fired_context_monitor 18000) \<le> 95 / 100"
    by (simp_all add: reset_monitoring_fields fired_monitor_fields)
  from context_refires [OF flags estimate_test_text, of 18060] thr(1)
  have "\<not> reported warning_threshold_crossed (fst (check_context_thresholds
         (reset_monitoring fired_context_monitor 18000) 18060
         ''Test conversation with 95% context usage''))"
    by blast
  with fired_coordinator_reset(1) estimate_test_text thr(2) flags(2) show ?thesis
    by blast
qed

text \<open>
  Claim C7, amended: after \<open>reset_all_monitoring\<close> the four one-shot flags are false and
  the counters (exchanges since base, total exchanges, emergency backups, triggers fired)
  are 0. The next context evaluation fires the trigger of the highest threshold that the
  usage reaches: the critical one, and not the warning, when the usage is at or above the
  critical threshold; the warning when the usage is at or above the warning threshold and
  below the critical one. The reset leaves no session: the duration is 0 and, for positive
  thresholds, the next duration evaluation reports no crossing. Once a session is started
  again, an evaluation reports the limit when the duration is at or above it, code orange
  from the orange threshold up to the limit, and code yellow from the yellow threshold up
  to the orange threshold and the limit.
\<close>

theorem reset_rearms:
  assumes "context_mon (reset_all_monitoring c now) = Some cm"
    and "session_mon (reset_all_monitoring c now) = Some sm"
  shows "\<not> warning_triggered (cw_state cm) \<and> \<not> critical_triggered (cw_state cm)
       \<and> \<not> code_yellow_triggered (sd_state sm) \<and> \<not> code_orange_triggered (sd_state sm)
       \<and> conversation_exchanges_since_base (cw_state cm) = 0
       \<and> total_exchanges (sd_state sm) = 0
       \<and> emergency_backups_created (sd_state sm) = 0
       \<and> total_triggers_fired (co_state (reset_all_monitoring c now)) = 0
       \<and> (estimate_context_usage cm t = Inr u \<and> critical_threshold cm \<le> u \<longrightarrow>
            reported critical_threshold_crossed (fst (check_context_thresholds cm now1 t))
            \<and> \<not> reported warning_threshold_crossed (fst (check_context_thresholds cm now1 t)))
       \<and> (estimate_context_usage cm t = Inr u \<and> warning_threshold cm \<le> u
            \<and> u < critical_threshold cm \<longrightarrow>
            reported warning_threshold_crossed (fst (check_context_thresholds cm now1 t)))
       \<and> get_session_duration sm t1 = 0
       \<and> (0 < session_limit sm \<and> 0 < code_orange_threshold sm \<and> 0 < code_yellow_threshold sm
            \<longrightarrow> \<not> code_yellow_crossed (fst (check_session_thresholds sm t1 t2))
              \<and> \<not> code_orange_crossed (fst (check_session_thresholds sm t1 t2))
              \<and> \<not> session_limit_exceeded (fst (check_session_thresholds sm t1 t2)))
       \<and> (session_limit sm \<le> (t1 - t0) / 3600 \<longrightarrow>
            session_limit_exceeded (fst (check_session_thresholds (start_session sm t0 sid) t1 t2)))
       \<and> (code_orange_threshold sm \<le> (t1 - t0) / 3600 \<and> (t1 - t0) / 3600 < session_limit sm \<longrightarrow>
            code_orange_crossed (fst (check_session_thresholds (start_session sm t0 sid) t1 t2)))
       \<and> (code_yellow_threshold sm \<le> (t1 - t0) / 3600
            \<and> (t1 - t0) / 3600 < code_orange_threshold sm
            \<and> (t1 - t0) / 3600 < session_limit sm \<longrightarrow>
            code_yellow_crossed (fst (check_session_thresholds (start_session sm t0 sid) t1 t2)))"
proof -
  from assms(1) obtain cm0 where cm: "cm = reset_monitoring cm0 now"
    by (auto simp: reset_all_context_mon)
  from assms(2) obtain sm0 where sm: "sm = reset_session (stop_monitoring_thread sm0)"
    by (auto simp: reset_all_session_mon)
  have flags: "\<not> warning_triggered (cw_state cm)" "\<not> critical_triggered (cw_state cm)"
    "conversation_exchanges_since_base (cw_state cm) = 0"
    by (simp_all add: cm reset_monitoring_state cw_default_state_def)
  have sflags: "\<not> code_yellow_triggered (sd_state sm)" "\<not> code_orange_triggered (sd_state sm)"
    "total_exchanges (sd_state sm) = 0" "emergency_backups_created (sd_state sm) = 0"
    "session_start (sd_state sm) = None"
    by (simp_all add: sm reset_session_state sd_default_state_def)
  have co: "total_triggers_fired (co_state (reset_all_monitoring c now)) = 0"
    by (simp add: reset_all_co_state co_default_state_def)
  have ctx: "(estimate_context_usage cm t = Inr u \<and> critical_threshold cm \<le> u \<longrightarrow>
            reported critical_threshold_crossed (fst (check_context_thresholds cm now1 t))
            \<and> \<not> reported warning_threshold_crossed (fst (check_context_thresholds cm now1 t)))
       \<and> (estimate_context_usage cm t = Inr u \<and> warning_threshold cm \<le> u
            \<and> u < critical_threshold cm \<longrightarrow>
            reported warning_threshold_crossed (fst (check_context_thresholds cm now1 t)))"
    using context_refires [OF flags(2) flags(1), of t u now1] by blast
  note idle = unstarted_session_silent [OF sflags(5)]
  note ses = session_refires [OF started_session_fields(4) started_session_fields(5),
      of sm t0 sid t1 t2, unfolded started_session_duration started_session_fields]
  from flags sflags(1-4) co ctx idle ses show ?thesis by blast
qed

theorem reset_rearms_witness:
  "warning_triggered (cw_state fired_context_monitor)
   \<and> critical_triggered (cw_state fired_context_monitor)
   \<and> code_yellow_triggered (sd_state fired_session_monitor)
   \<and> code_orange_triggered (sd_state fired_session_monitor)
   \<and> context_mon (reset_all_monitoring fired_coordinator 18000)
       = Some (reset_monitoring fired_context_monitor 18000)
   \<and> session_mon (reset_all_monitoring fired_coordinator 18000)
       = Some (reset_session (stop_monitoring_thread fired_session_monitor))
   \<and> \<not> warning_triggered (cw_state (reset_monitoring fired_context_monitor 18000))
   \<and> \<not> critical_triggered (cw_state (reset_monitoring fired_context_monitor 18000))
   \<and> \<not> code_yellow_triggered
         (sd_state (reset_session (stop_monitoring_thread fired_session_monitor)))
   \<and> \<not> code_orange_triggered
         (sd_state (reset_session (stop_monitoring_thread fired_session_monitor)))
   \<and> total_triggers_fired (co_state (reset_all_monitoring fired_coordinator 18000)) = 0
   \<and> estimate_context_usage (reset_monitoring fired_context_monitor 18000)
        ''Test conversation with 95% context usage'' = Inr (95 / 100)
   \<and> critical_threshold (reset_monitoring fired_context_monitor 18000) \<le> 95 / 100
   \<and> reported critical_threshold_crossed (fst (check_context_thresholds
         (reset_monitoring fired_context_monitor 18000) 18060
         ''Test conversation with 95% context usage''))
   \<and> 0 < code_yellow_threshold (reset_session (stop_monitoring_thread fired_session_monitor))
   \<and> \<not> code_yellow_crossed (fst (check_session_thresholds
         (reset_session (stop_monitoring_thread fired_session_monitor)) 36560 36561))
   \<and> code_yellow_threshold (reset_session (stop_monitoring_thread fired_session_monitor))
       \<le> (36560 - 20000) / 3600
   \<and> code_yellow_crossed (fst (check_session_thresholds
         (start_session (reset_session (stop_monitoring_thread fired_session_monitor)) 20000 None)
         36560 36561))"
proof -
  note a = fired_coordinator_reset(1)
  note b = fired_coordinator_reset(2)
  have c: "critical_threshold (reset_monitoring fired_context_monitor 18000) \<le> 95 / 100"
    by (simp add: reset_monitoring_fields fired_monitor_fields)
  note e = estimate_test_text [of "reset_monitoring fired_context_monitor 18000"]
  have d: "code_yellow_threshold (reset_session (stop_monitoring_thread fired_session_monitor))
       \<le> (36560 - 20000) / 3600"
    "(36560 - 20000) / 3600
       < code_orange_threshold (reset_session (stop_monitoring_thread fired_session_monitor))"
    "(36560 - 20000) / 3600
       < session_limit (reset_session (stop_monitoring_thread fired_session_monitor))"
    "0 < session_limit (reset_session (stop_monitoring_thread fired_session_monitor))"
    "0 < code_orange_threshold (reset_session (stop_monitoring_thread fired_session_monitor))"
    "0 < code_yellow_threshold (reset_session (stop_monitoring_thread fired_session_monitor))"
    by (simp_all add: reset_session_fields fired_monitor_fields)
  from reset_rearms [OF a b, of "''Test conversation with 95% context usage''" "95 / 100" 18060
      36560 36561 20000 None] c d e
  have "\<not> warning_triggered (cw_state (reset_monitoring fired_context_monitor 18000))
   \<and> \<not> critical_triggered (cw_state (reset_monitoring fired_context_monitor 18000))
   \<and> \<not> code_yellow_triggered
         (sd_state (reset_session (stop_monitoring_thread fired_session_monitor)))
   \<and> \<not> code_orange_triggered
         (sd_state (reset_session (stop_monitoring_thread fired_session_monitor)))
   \<and> total_triggers_fired (co_state (reset_all_monitoring fired_coordinator 18000)) = 0
   \<and> reported critical_threshold_crossed (fst (check_context_thresholds
         (reset_monitoring fired_context_monitor 18000) 18060
         ''Test conversation with 95% context usage''))
   \<and> \<not> code_yellow_crossed (fst (check_session_thresholds
         (reset_session (stop_monitoring_thread fired_session_monitor)) 36560 36561))
   \<and> code_yellow_crossed (fst (check_session_thresholds
         (start_session (reset_session (stop_monitoring_thread fired_session_monitor)) 20000 None)
         36560 36561))"
    by blast
  with a b c d(1,6) e fired_monitor_fields(3,4,8,9) show ?thesis by blast
qed

subsection \<open>Classification of credit warnings\<close>

lemma detect_daily_usage:
  "detect_credit_warning ''Daily usage limit reached. Consider upgrading for more credits.''
     = Detected [1] None ''general_limit''
         ''Daily usage limit reached. Consider upgrading for more credits.'' (1 / 9)"
  by code_simp

lemma detect_daily_limit_upgrade:
  "detect_credit_warning ''Daily limit reached - upgrade''
     = Detected [7] None ''daily_limit''
         ''Daily limit reached - upgrade'' (1 / 9)"
  by code_simp

lemma contains_daily_limit_upgrade:
  "contains (lower ''Daily limit reached - upgrade'') ''daily limit''
   \<and> contains (lower ''Daily limit reached - upgrade'') ''upgrade''"
  by code_simp

lemma detected_warning_type:
  "detect_credit_warning message \<noteq> NotDetected \<Longrightarrow>
   warning_type (detect_credit_warning message) = classify_warning_type (lower message)"
  by (simp add: detect_credit_warning_def Let_def split: if_splits)

text \<open>
  Claim C3, as stated: the message \<open>Daily usage limit reached. Consider upgrading for
  more credits.\<close> is classified \<open>daily_limit\<close>. It is not: the lower-cased message
  contains neither \<open>daily limit\<close> (the word \<open>usage\<close> stands between) nor
  \<open>upgrade\<close> (it has \<open>upgrading\<close>), and the cascade ends in \<open>general_limit\<close>.
\<close>

theorem daily_usage_message_counterexample:
  "warning_type (detect_credit_warning
       ''Daily usage limit reached. Consider upgrading for more credits.'') = ''general_limit''
   \<and> warning_type (detect_credit_warning
       ''Daily usage limit reached. Consider upgrading for more credits.'') \<noteq> ''daily_limit''"
  by (simp add: detect_daily_usage)

text \<open>
  Claim C3, amended: the message is detected through the pattern for
  \<open>usage limit reached\<close> alone and classified \<open>general_limit\<close>. For every detected
  message the warning type follows the cascade over the lower-cased text, first test that
  holds wins: \<open>daily limit\<close> or \<open>24 hour\<close>, then \<open>upgrade\<close>, then \<open>running low\<close>,
  then \<open>pause\<close>, else \<open>general_limit\<close>; so \<open>daily_limit\<close> outranks
  \<open>upgrade_suggestion\<close>.
\<close>

theorem warning_type_cascade:
  "detect_credit_warning ''Daily usage limit reached. Consider upgrading for more credits.''
     = Detected [1] None ''general_limit''
         ''Daily usage limit reached. Consider upgrading for more credits.'' (1 / 9)
   \<and> (detect_credit_warning message \<noteq> NotDetected \<longrightarrow>
        (let l = lower message; w = warning_type (detect_credit_warning message)
         in (contains l ''daily limit'' \<or> contains l ''24 hour'' \<longrightarrow> w = ''daily_limit'')
          \<and> (\<not> contains l ''daily limit'' \<and> \<not> contains l ''24 hour'' \<and> contains l ''upgrade''
               \<longrightarrow> w = ''upgrade_suggestion'')
          \<and> (\<not> contains l ''daily limit'' \<and> \<not> contains l ''24 hour'' \<and> \<not> contains l ''upgrade''
               \<and> contains l ''running low'' \<longrightarrow> w = ''low_credits'')
          \<and> (\<not> contains l ''daily limit'' \<and> \<not> contains l ''24 hour'' \<and> \<not> contains l ''upgrade''
               \<and> \<not> contains l ''running low'' \<and> contains l ''pause'' \<longrightarrow> w = ''session_pause'')
          \<and> (\<not> contains l ''daily limit'' \<and> \<not> contains l ''24 hour'' \<and> \<not> contains l ''upgrade''
               \<and> \<not> contains l ''running low'' \<and> \<not> contains l ''pause''
               \<longrightarrow> w = ''general_limit'')))"
  using detected_warning_type [of message]
  by (simp add: detect_daily_usage Let_def classify_warning_type_def)

theorem warning_type_cascade_witness:
  "detect_credit_warning ''Daily limit reached - upgrade'' \<noteq> NotDetected
   \<and> contains (lower ''Daily limit reached - upgrade'') ''daily limit''
   \<and> contains (lower ''Daily limit reached - upgrade'') ''upgrade''
   \<and> warning_type (detect_credit_warning ''Daily limit reached - upgrade'')
       = ''daily_limit''"
proof -
  have a: "detect_credit_warning ''Daily limit reached - upgrade'' \<noteq> NotDetected"
    by (simp add: detect_daily_limit_upgrade)
  from warning_type_cascade [of "''Daily limit reached - upgrade''"] a
    contains_daily_limit_upgrade
  have "warning_type (detect_credit_warning ''Daily limit reached - upgrade'')
       = ''daily_limit''"
    unfolding Let_def by blast
  with a contains_daily_limit_upgrade show ?thesis by blast
qed

subsection \<open>Monitors without a package generator\<close>




subsection \<open>The bounded trigger history\<close>

lemma last10_short: "length xs \<le> 10 \<Longrightarrow> last10 xs = xs"
  by (simp add: last10_def)

lemma length_last10: "length (last10 xs) = min (length xs) 10"
  by (simp add: last10_def)

lemma last10_append_last10: "last10 (last10 xs @ ys) = last10 (xs @ ys)"
proof (cases "length xs \<le> 10")
  case True
  then show ?thesis by (simp add: last10_short)
next
  case False
  then have "length xs + length ys - (length xs - 10 + 10) + (length xs - 10)
               = length xs + length ys - 10"
    by arith
  then show ?thesis by (simp add: last10_def)
qed

lemma history_log_trigger:
  "triggers_history (co_state (log_trigger c now ty r)) =
     last10 (triggers_history (co_state c) @ [event_of (now, ty, r)])"
  by (simp add: log_trigger_def event_of_def Let_def last10_short)

lemma history_log_all:
  "length (triggers_history (co_state c)) \<le> 10 \<Longrightarrow>
   triggers_history (co_state (log_all c evs)) =
     last10 (triggers_history (co_state c) @ map event_of evs)"
proof (induction evs arbitrary: c)
  case Nil
  then show ?case by (simp add: last10_short)
next
  case (Cons e evs)
  obtain now ty r where e: "e = (now, ty, r)" by (cases e) auto
  have "length (triggers_history (co_state (log_trigger c now ty r))) \<le> 10"
    by (simp add: history_log_trigger length_last10)
  from Cons.IH [OF this] show ?case
    by (simp add: e history_log_trigger last10_append_last10)
qed

text \<open>
  Claim C4: the trigger history holds at most 10 events, the oldest leave first. After 15
  logged events from an empty history it has exactly 10 entries, the 10 most recent in the
  order in which they were logged; and after any single \<open>log_trigger\<close>, from any state,
  it has at most 10 entries.
\<close>

theorem trigger_history_bounded:
  "(triggers_history (co_state c) = [] \<and> length evs = 15 \<longrightarrow>
      triggers_history (co_state (log_all c evs)) = map event_of (drop 5 evs)
      \<and> length (triggers_history (co_state (log_all c evs))) = 10)
   \<and> length (triggers_history (co_state (log_trigger c' now ty r))) \<le> 10"
proof -
  have "triggers_history (co_state (log_all c evs)) = map event_of (drop 5 evs)
        \<and> length (triggers_history (co_state (log_all c evs))) = 10"
    if h: "triggers_history (co_state c) = []" and n: "length evs = 15"
  proof -
    have "triggers_history (co_state (log_all c evs)) = last10 (map event_of evs)"
      using history_log_all [of c evs] h by simp
    also have "\<dots> = map event_of (drop 5 evs)"
      using n by (simp add: last10_def drop_map)
    finally show ?thesis using n by simp
  qed
  moreover have "length (triggers_history (co_state (log_trigger c' now ty r))) \<le> 10"
    by (simp add: history_log_trigger length_last10)
  ultimately show ?thesis by blast
qed

theorem trigger_history_bounded_witness:
  "triggers_history (co_state (co_init True True True True co_default_state None None None)) = []
   \<and> length
     [(1, ''code_yellow'', [(''success'', PBool True)]),
      (2, ''code_yellow'', [(''success'', PBool True)]),
      (3, ''code_yellow'', [(''success'', PBool True)]),
      (4, ''code_yellow'', [(''success'', PBool True)]),
      (5, ''code_yellow'', [(''success'', PBool True)]),
      (6, ''code_yellow'', [(''success'', PBool True)]),
      (7, ''code_yellow'', [(''success'', PBool True)]),
      (8, ''code_yellow'', [(''success'', PBool True)]),
      (9, ''code_yellow'', [(''success'', PBool True)]),
      (10, ''code_yellow'', [(''success'', PBool True)]),
      (11, ''code_yellow'', [(''success'', PBool True)]),
      (12, ''code_yellow'', [(''success'', PBool True)]),
      (13, ''code_yellow'', [(''success'', PBool True)]),
      (14, ''code_yellow'', [(''success'', PBool True)]),
      (15, ''code_yellow'', [(''success'', PBool True)])] = (15::nat)
   \<and> triggers_history (co_state (log_all
       (co_init True True True True co_default_state None None None)
     [(1, ''code_yellow'', [(''success'', PBool True)]),
      (2, ''code_yellow'', [(''success'', PBool True)]),
      (3, ''code_yellow'', [(''success'', PBool True)]),
      (4, ''code_yellow'', [(''success'', PBool True)]),
      (5, ''code_yellow'', [(''success'', PBool True)]),
      (6, ''code_yellow'', [(''success'', PBool True)]),
      (7, ''code_yellow'', [(''success'', PBool True)]),
      (8, ''code_yellow'', [(''success'', PBool True)]),
      (9, ''code_yellow'', [(''success'', PBool True)]),
      (10, ''code_yellow'', [(''success'', PBool True)]),
      (11, ''code_yellow'', [(''success'', PBool True)]),
      (12, ''code_yellow'', [(''success'', PBool True)]),
      (13, ''code_yellow'', [(''success'', PBool True)]),
      (14, ''code_yellow'', [(''success'', PBool True)]),
      (15, ''code_yellow'', [(''success'', PBool True)])])) =
     [event_of (6, ''code_yellow'', [(''success'', PBool True)]),
      event_of (7, ''code_yellow'', [(''success'', PBool True)]),
      event_of (8, ''code_yellow'', [(''success'', PBool True)]),
      event_of (9, ''code_yellow'', [(''success'', PBool True)]),
      event_of (10, ''code_yellow'', [(''success'', PBool True)]),
      event_of (11, ''code_yellow'', [(''success'', PBool True)]),
      event_of (12, ''code_yellow'', [(''success'', PBool True)]),
      event_of (13, ''code_yellow'', [(''success'', PBool True)]),
      event_of (14, ''code_yellow'', [(''success'', PBool True)]),
      event_of (15, ''code_yellow'', [(''success'', PBool True)])]"
  using trigger_history_bounded [of "co_init True True True True co_default_state None None None"
     "[(1, ''code_yellow'', [(''success'', PBool True)]),
      (2, ''code_yellow'', [(''success'', PBool True)]),
      (3, ''code_yellow'', [(''success'', PBool True)]),
      (4, ''code_yellow'', [(''success'', PBool True)]),
      (5, ''code_yellow'', [(''success'', PBool True)]),
      (6, ''code_yellow'', [(''success'', PBool True)]),
      (7, ''code_yellow'', [(''success'', PBool True)]),
      (8, ''code_yellow'', [(''success'', PBool True)]),
      (9, ''code_yellow'', [(''success'', PBool True)]),
      (10, ''code_yellow'', [(''success'', PBool True)]),
      (11, ''code_yellow'', [(''success'', PBool True)]),
      (12, ''code_yellow'', [(''success'', PBool True)]),
      (13, ''code_yellow'', [(''success'', PBool True)]),
      (14, ''code_yellow'', [(''success'', PBool True)]),
      (15, ''code_yellow'', [(''success'', PBool True)])]"]
  by (simp add: co_init_def co_default_state_def)

subsection \<open>Order of evaluation in the coordinator\<close>

lemma alist_update_nonempty: "AList.update k v d \<noteq> []"
  by (cases d) auto

lemma dict_update_nonempty: "other \<noteq> [] \<Longrightarrow> dict_update d other \<noteq> []"
proof -
  have "foldl (\<lambda>acc (k, v). AList.update k v acc) d other \<noteq> []" if "other \<noteq> [] \<or> d \<noteq> []"
    using that
  proof (induction other arbitrary: d)
    case Nil
    then show ?case by simp
  next
    case (Cons kv other)
    obtain k v where kv: "kv = (k, v)" by (cases kv) auto
    show ?case using Cons.IH [of "AList.update k v d"]
      by (simp add: kv alist_update_nonempty)
  qed
  then show "other \<noteq> [] \<Longrightarrow> dict_update d other \<noteq> []"
    by (simp add: dict_update_def)
qed

lemma execute_threshold_backup_nonempty:
  "execute_threshold_backup g ptype info ins = (Inr r, ins') \<Longrightarrow> r \<noteq> []"
  by (auto simp: execute_threshold_backup_def Let_def dict_update_nonempty
      split: prod.splits sum.splits)

lemma show_backup_options_nonempty:
  "show_backup_options g info ins = (Inr r, ins') \<Longrightarrow> r \<noteq> []"
  by (induction g info ins rule: show_backup_options.induct)
    (auto simp: Let_def split: if_splits dest: execute_threshold_backup_nonempty)

lemma backup_prompt_loop_nonempty:
  "backup_prompt_loop g info ins = (Inr r, ins') \<Longrightarrow> r \<noteq> []"
  by (induction g info ins rule: backup_prompt_loop.induct)
    (auto simp: Let_def split: if_splits dest: show_backup_options_nonempty)

lemma trigger_backup_prompt_nonempty:
  "trigger_backup_prompt m info ins = (Inr r, ins') \<Longrightarrow> r \<noteq> []"
  by (auto simp: trigger_backup_prompt_def generator_not_available_def
      split: if_splits option.splits dest: backup_prompt_loop_nonempty)

lemma monitor_session_nonempty:
  assumes "monitor_session m message ins = (Inr (Some r), ins')"
  shows "r \<noteq> []"
proof (cases "detect_credit_warning message")
  case NotDetected
  with assms show ?thesis by (simp add: monitor_session_def)
next
  case (Detected ps rt wt msg conf)
  obtain x ins2 where tb:
    "trigger_backup_prompt m (warning_info_dict (Detected ps rt wt msg conf)) ins = (x, ins2)"
    by (cases "trigger_backup_prompt m (warning_info_dict (Detected ps rt wt msg conf)) ins")
  with assms Detected have "map_sum id Some x = Inr (Some r)" and "ins2 = ins'"
    by (simp_all add: monitor_session_def)
  then have "x = Inr r" by (cases x) auto
  with tb show ?thesis using trigger_backup_prompt_nonempty by blast
qed

lemma monitor_session_not_detected:
  "detect_credit_warning message = NotDetected \<Longrightarrow> monitor_session m message ins = (Inr None, ins)"
  by (simp add: monitor_session_def)

lemma handle_warning_keeps_estimate:
  "estimated_context_usage (cw_state (fst (snd (handle_warning_trigger m now a ins))))
     = estimated_context_usage (cw_state m)"
  by (simp add: handle_warning_trigger_def create_base_context_def cw_save_state_def Let_def
      split: option.splits list.splits prod.splits sum.splits)

lemma handle_critical_keeps_estimate:
  "estimated_context_usage (cw_state (fst (snd (handle_critical_trigger m ins))))
     = estimated_context_usage (cw_state m)"
  by (simp add: handle_critical_trigger_def create_delta_session_def
      create_full_critical_backup_def Let_def split: option.splits prod.splits sum.splits)

lemma check_context_stores_estimate:
  "estimate_context_usage m t = Inr u \<Longrightarrow>
     estimated_context_usage (cw_state (snd (check_context_thresholds m now t))) = u"
  by (simp add: check_context_thresholds_def cw_save_state_def Let_def)

lemma monitor_conversation_stores_estimate:
  assumes "context_monitoring m"
    and "estimate_context_usage (increment_exchange_count m now) t = Inr u"
  shows "estimated_context_usage (cw_state (fst (snd (monitor_conversation m now t ins)))) = u"
proof -
  obtain res m2 where chk:
    "check_context_thresholds (increment_exchange_count m now) now t = (res, m2)"
    by (cases "check_context_thresholds (increment_exchange_count m now) now t")
  from check_context_stores_estimate [OF assms(2), of now] chk
  have m2: "estimated_context_usage (cw_state m2) = u" by simp
  from chk assms(2) obtain r where res: "res = Inr r"
    by (auto simp: check_context_thresholds_def Let_def split: if_splits)
  have w: "estimated_context_usage (cw_state (fst (snd (handle_warning_trigger m2 now None ins)))) = u"
    using m2 by (simp add: handle_warning_keeps_estimate)
  have c: "estimated_context_usage (cw_state (fst (snd (handle_critical_trigger m2 ins)))) = u"
    using m2 by (simp add: handle_critical_keeps_estimate)
  show ?thesis
    using assms(1) chk res m2 w c
    by (auto simp: monitor_conversation_def Let_def split: prod.splits)
qed

lemma co_note_activity_monitors:
  "credit_mon (co_note_activity c now) = credit_mon c"
  "context_mon (co_note_activity c now) = context_mon c"
  by (simp_all add: co_note_activity_def split: option.splits)

lemma update_activity_credit_first:
  assumes "credit_mon c = Some crm" and "claude_message \<noteq> []"
  shows "update_activity c now conversation_text claude_message ins =
     (case monitor_session crm claude_message ins of
        (Inr (Some credit_result), ins') \<Rightarrow>
           if credit_result \<noteq> []
           then (Some credit_result,
                 log_trigger (co_note_activity c now) now ''credit_warning'' credit_result, ins')
           else co_check_context (co_note_activity c now) now conversation_text ins'
      | (_, ins') \<Rightarrow> co_check_context (co_note_activity c now) now conversation_text ins')"
  using assms by (simp add: update_activity_def co_note_activity_monitors Let_def)

lemma co_check_context_runs_monitor:
  assumes "context_mon c = Some cm" and "conversation_text \<noteq> []"
  shows "co_check_context (co_note_activity c now) now conversation_text ins =
     (case monitor_conversation cm now conversation_text ins of
        (Inr (Some context_result), cm', ins') \<Rightarrow>
           if context_result \<noteq> []
           then (Some context_result,
                 log_trigger ((co_note_activity c now)\<lparr>context_mon := Some cm'\<rparr>) now
                   ''context_window'' context_result,
                 ins')
           else (None, (co_note_activity c now)\<lparr>context_mon := Some cm'\<rparr>, ins')
      | (_, cm', ins') \<Rightarrow> (None, (co_note_activity c now)\<lparr>context_mon := Some cm'\<rparr>, ins'))"
  using assms by (simp add: co_check_context_def co_note_activity_monitors)

lemma context_mon_log_trigger: "context_mon (log_trigger c now kind r) = context_mon c"
  by (simp add: log_trigger_def Let_def)

text \<open>
  Claim C5: in \<open>update_activity\<close> with a message and a conversation text, the credit
  monitor is asked first. When it returns a result, that result is returned at once and
  logged as \<open>credit_warning\<close>, and the context monitor is left as it was:
  \<open>monitor_conversation\<close> is not run. Only when the credit monitor returns no result
  (nothing detected, or the prompt ended in an exception) is the conversation text given to
  \<open>monitor_conversation\<close> of the context monitor, with the input the credit monitor left:
  the coordinator then holds the context monitor that \<open>monitor_conversation\<close> returns,
  which for an enabled monitor stores the usage estimated for the text, and a result of
  \<open>monitor_conversation\<close> is returned and logged as \<open>context_window\<close>.
\<close>

theorem classifier_before_estimator:
  assumes "credit_mon c = Some crm" and "context_mon c = Some cm"
    and "claude_message \<noteq> []" and "conversation_text \<noteq> []"
  shows "(monitor_session crm claude_message ins = (Inr (Some r), ins') \<longrightarrow>
            update_activity c now conversation_text claude_message ins
              = (Some r, log_trigger (co_note_activity c now) now ''credit_warning'' r, ins')
          \<and> context_mon (fst (snd (update_activity c now conversation_text claude_message ins)))
              = Some cm)
       \<and> ((\<forall>r'. fst (monitor_session crm claude_message ins) \<noteq> Inr (Some r')) \<longrightarrow>
            context_mon (fst (snd (update_activity c now conversation_text claude_message ins)))
              = Some (fst (snd (monitor_conversation cm now conversation_text
                                  (snd (monitor_session crm claude_message ins)))))
          \<and> snd (snd (update_activity c now conversation_text claude_message ins))
              = snd (snd (monitor_conversation cm now conversation_text
                            (snd (monitor_session crm claude_message ins))))
          \<and> fst (update_activity c now conversation_text claude_message ins)
              = (case fst (monitor_conversation cm now conversation_text
                             (snd (monitor_session crm claude_message ins))) of
                   Inr (Some d) \<Rightarrow> if d \<noteq> [] then Some d else None
                 | _ \<Rightarrow> None)
          \<and> (fst (monitor_conversation cm now conversation_text
                     (snd (monitor_session crm claude_message ins))) = Inr (Some d) \<and> d \<noteq> [] \<longrightarrow>
                fst (snd (update_activity c now conversation_text claude_message ins))
                  = log_trigger ((co_note_activity c now)
                        \<lparr>context_mon := Some (fst (snd (monitor_conversation cm now conversation_text
                            (snd (monitor_session crm claude_message ins)))))\<rparr>)
                      now ''context_window'' d)
          \<and> (context_monitoring cm
               \<and> estimate_context_usage (increment_exchange_count cm now) conversation_text = Inr u
               \<longrightarrow> map_option (\<lambda>m. estimated_context_usage (cw_state m))
                     (context_mon (fst (snd (update_activity c now conversation_text
                                               claude_message ins)))) = Some u))"
proof -
  note unfold = update_activity_credit_first [OF assms(1) assms(3), of now conversation_text ins]
  note ctx = co_note_activity_monitors(2) [of c now]
  have a: "update_activity c now conversation_text claude_message ins
              = (Some r, log_trigger (co_note_activity c now) now ''credit_warning'' r, ins')
          \<and> context_mon (fst (snd (update_activity c now conversation_text claude_message ins)))
              = Some cm"
    if h: "monitor_session crm claude_message ins = (Inr (Some r), ins')"
  proof -
    from monitor_session_nonempty [OF h] have "r \<noteq> []" .
    then show ?thesis using h ctx assms(2) by (simp add: unfold context_mon_log_trigger)
  qed
  define ins2 where "ins2 = snd (monitor_session crm claude_message ins)"
  obtain res cm' ins3 where mc:
    "monitor_conversation cm now conversation_text ins2 = (res, cm', ins3)"
    by (cases "monitor_conversation cm now conversation_text ins2") auto
  note cc = co_check_context_runs_monitor [OF assms(2) assms(4), of now ins2]
  have b: "update_activity c now conversation_text claude_message ins
              = co_check_context (co_note_activity c now) now conversation_text ins2"
    if h: "\<forall>r'. fst (monitor_session crm claude_message ins) \<noteq> Inr (Some r')"
    using h by (auto simp: unfold ins2_def split: prod.splits sum.splits option.splits)
  have b1: "context_mon (fst (snd (co_check_context (co_note_activity c now) now
               conversation_text ins2))) = Some cm'"
    by (simp add: cc mc context_mon_log_trigger split: sum.splits option.splits)
  have b2: "snd (snd (co_check_context (co_note_activity c now) now conversation_text ins2)) = ins3"
    by (simp add: cc mc split: sum.splits option.splits)
  have b3: "fst (co_check_context (co_note_activity c now) now conversation_text ins2)
       = (case res of Inr (Some d) \<Rightarrow> if d \<noteq> [] then Some d else None | _ \<Rightarrow> None)"
    by (simp add: cc mc split: sum.splits option.splits)
  have b4: "fst (snd (co_check_context (co_note_activity c now) now conversation_text ins2))
       = log_trigger ((co_note_activity c now)\<lparr>context_mon := Some cm'\<rparr>) now ''context_window'' d"
    if "res = Inr (Some d)" and "d \<noteq> []"
    using that by (simp add: cc mc)
  have b5: "estimated_context_usage (cw_state cm') = u"
    if "context_monitoring cm"
      and "estimate_context_usage (increment_exchange_count cm now) conversation_text = Inr u"
    using monitor_conversation_stores_estimate [OF that, of ins2] mc by simp
  have proj: "fst (monitor_conversation cm now conversation_text ins2) = res"
    "fst (snd (monitor_conversation cm now conversation_text ins2)) = cm'"
    "snd (snd (monitor_conversation cm now conversation_text ins2)) = ins3"
    by (simp_all add: mc)
  show ?thesis
    unfolding ins2_def [symmetric] proj
    using a b b1 b2 b3 b4 b5 by auto
qed

lemma detect_approaching:
  "detect_credit_warning ''Approaching usage limit - test trigger''
     = Detected [2] None ''general_limit'' ''Approaching usage limit - test trigger'' (1 / 9)"
  by code_simp

lemma detect_nothing: "detect_credit_warning ''Thanks, that works.'' = NotDetected"
  by code_simp

lemma test_coordinator_monitors:
  "credit_mon (co_init True True True True co_default_state None (Some (cr_init True None))
          (Some (cw_init True cw_default_state None))) = Some (cr_init True None)"
  "context_mon (co_init True True True True co_default_state None (Some (cr_init True None))
          (Some (cw_init True cw_default_state None))) = Some (cw_init True cw_default_state None)"
  by (simp_all add: co_init_def)

lemma test_monitor_fields:
  "context_monitoring (cw_init True cw_default_state None)"
  "cw_generator (cw_init True cw_default_state None) = None"
  "critical_threshold (cw_init True cw_default_state None) = 0.95"
  "\<not> critical_triggered (cw_state (cw_init True cw_default_state None))"
  by (simp_all add: cw_init_def cw_default_state_def)

lemma check_context_generator:
  "cw_generator (snd (check_context_thresholds m now t)) = cw_generator m"
  by (simp add: check_context_thresholds_def cw_save_state_def Let_def split: sum.splits)

lemma increment_keeps_generator:
  "cw_generator (increment_exchange_count m now) = cw_generator m"
  by (simp add: increment_exchange_count_def cw_save_state_def)

lemma test_conversation_critical:
  "fst (monitor_conversation (cw_init True cw_default_state None) 0
          ''Test conversation with 95% context usage'' []) = Inr (Some generator_not_available)"
proof -
  note e = estimate_test_text [of "increment_exchange_count (cw_init True cw_default_state None) 0"]
  have f: "critical_threshold (increment_exchange_count (cw_init True cw_default_state None) 0) = 0.95"
    "\<not> critical_triggered (cw_state (increment_exchange_count (cw_init True cw_default_state None) 0))"
    by (simp_all add: increment_exchange_count_def cw_save_state_def test_monitor_fields)
  have g: "cw_generator (snd (check_context_thresholds
       (increment_exchange_count (cw_init True cw_default_state None) 0) 0
       ''Test conversation with 95% context usage'')) = None"
    by (simp add: check_context_generator increment_keeps_generator test_monitor_fields)
  have h: "\<exists>r. fst (check_context_thresholds
       (increment_exchange_count (cw_init True cw_default_state None) 0) 0
       ''Test conversation with 95% context usage'') = Inr r \<and> critical_threshold_crossed r"
    by (simp add: check_context_thresholds_def e f Let_def)
  from g h show ?thesis
    by (auto simp: monitor_conversation_def test_monitor_fields Let_def
        handle_critical_trigger_def split: prod.splits sum.splits)
qed

theorem classifier_before_estimator_witness:
  "credit_mon (co_init True True True True co_default_state None (Some (cr_init True None))
          (Some (cw_init True cw_default_state None))) = Some (cr_init True None)
   \<and> context_mon (co_init True True True True co_default_state None (Some (cr_init True None))
          (Some (cw_init True cw_default_state None))) = Some (cw_init True cw_default_state None)
   \<and> ''Approaching usage limit - test trigger'' \<noteq> []
   \<and> ''Thanks, that works.'' \<noteq> []
   \<and> ''Test conversation with 95% context usage'' \<noteq> []
   \<and> monitor_session (cr_init True None) ''Approaching usage limit - test trigger'' []
       = (Inr (Some generator_not_available), [])
   \<and> fst (update_activity (co_init True True True True co_default_state None (Some (cr_init True None))
          (Some (cw_init True cw_default_state None)))
       0 ''Test conversation with 95% context usage'' ''Approaching usage limit - test trigger'' [])
      = Some generator_not_available
   \<and> context_mon (fst (snd (update_activity (co_init True True True True co_default_state None (Some (cr_init True None))
          (Some (cw_init True cw_default_state None)))
       0 ''Test conversation with 95% context usage'' ''Approaching usage limit - test trigger'' [])))
      = Some (cw_init True cw_default_state None)
   \<and> (\<forall>r'. fst (monitor_session (cr_init True None) ''Thanks, that works.'' []) \<noteq> Inr (Some r'))
   \<and> context_monitoring (cw_init True cw_default_state None)
   \<and> estimate_context_usage (increment_exchange_count (cw_init True cw_default_state None) 0)
        ''Test conversation with 95% context usage'' = Inr (95 / 100)
   \<and> fst (update_activity (co_init True True True True co_default_state None (Some (cr_init True None))
          (Some (cw_init True cw_default_state None)))
       0 ''Test conversation with 95% context usage'' ''Thanks, that works.'' [])
      = Some generator_not_available
   \<and> map_option (\<lambda>m. estimated_context_usage (cw_state m))
       (context_mon (fst (snd (update_activity (co_init True True True True co_default_state None (Some (cr_init True None))
          (Some (cw_init True cw_default_state None)))
          0 ''Test conversation with 95% context usage'' ''Thanks, that works.'' []))))
      = Some (95 / 100)"
proof -
  note a = test_coordinator_monitors(1)
  note a' = test_coordinator_monitors(2)
  have b: "''Approaching usage limit - test trigger'' \<noteq> []" by simp
  have b': "''Thanks, that works.'' \<noteq> []" by simp
  have c: "''Test conversation with 95% context usage'' \<noteq> []" by simp
  have d: "monitor_session (cr_init True None) ''Approaching usage limit - test trigger'' []
       = (Inr (Some generator_not_available), [])"
    by (simp add: monitor_session_def detect_approaching trigger_backup_prompt_def cr_init_def)
  have d': "monitor_session (cr_init True None) ''Thanks, that works.'' [] = (Inr None, [])"
    by (simp add: monitor_session_not_detected detect_nothing)
  then have n: "\<forall>r'. fst (monitor_session (cr_init True None) ''Thanks, that works.'' [])
       \<noteq> Inr (Some r')"
    by simp
  note e = estimate_test_text [of "increment_exchange_count (cw_init True cw_default_state None) 0"]
  note m = test_monitor_fields(1)
  have mc: "fst (monitor_conversation (cw_init True cw_default_state None) 0
       ''Test conversation with 95% context usage''
       (snd (monitor_session (cr_init True None) ''Thanks, that works.'' [])))
     = Inr (Some generator_not_available)"
    by (simp add: d' test_conversation_critical)
  note first = classifier_before_estimator [OF a a' b c, of "[]" generator_not_available "[]" 0]
  note second = classifier_before_estimator [OF a a' b' c, of "[]" _ _ 0 _ "95 / 100"]
  from first d have f: "fst (update_activity (co_init True True True True co_default_state None (Some (cr_init True None))
          (Some (cw_init True cw_default_state None)))
       0 ''Test conversation with 95% context usage'' ''Approaching usage limit - test trigger'' [])
      = Some generator_not_available"
    by simp
  from first d have g: "context_mon (fst (snd (update_activity (co_init True True True True co_default_state None (Some (cr_init True None))
          (Some (cw_init True cw_default_state None)))
       0 ''Test conversation with 95% context usage'' ''Approaching usage limit - test trigger'' [])))
      = Some (cw_init True cw_default_state None)"
    by blast
  from second n have "fst (update_activity (co_init True True True True co_default_state None (Some (cr_init True None))
          (Some (cw_init True cw_default_state None)))
       0 ''Test conversation with 95% context usage'' ''Thanks, that works.'' [])
      = (case fst (monitor_conversation (cw_init True cw_default_state None) 0
                     ''Test conversation with 95% context usage''
                     (snd (monitor_session (cr_init True None) ''Thanks, that works.'' []))) of
           Inr (Some d) \<Rightarrow> if d \<noteq> [] then Some d else None
         | _ \<Rightarrow> None)"
    by blast
  then have h: "fst (update_activity (co_init True True True True co_default_state None (Some (cr_init True None))
          (Some (cw_init True cw_default_state None)))
       0 ''Test conversation with 95% context usage'' ''Thanks, that works.'' [])
      = Some generator_not_available"
    by (simp add: mc generator_not_available_def)
  from second n m e have k: "map_option (\<lambda>m. estimated_context_usage (cw_state m))
       (context_mon (fst (snd (update_activity (co_init True True True True co_default_state None (Some (cr_init True None))
          (Some (cw_init True cw_default_state None)))
          0 ''Test conversation with 95% context usage'' ''Thanks, that works.'' []))))
      = Some (95 / 100)"
    by blast
  show ?thesis by (intro conjI a a' b b' c d f g n m e h k)
qed

subsection \<open>The count of fired triggers\<close>

lemma total_log_trigger:
  "total_triggers_fired (co_state (log_trigger c now ty r)) = total_triggers_fired (co_state c) + 1"
  by (simp add: log_trigger_def Let_def)

lemma total_co_check_context:
  "total_triggers_fired (co_state c)
     \<le> total_triggers_fired (co_state (fst (snd (co_check_context c now t ins))))"
  by (auto simp: co_check_context_def total_log_trigger split: option.splits prod.splits sum.splits)

lemma total_co_note_activity:
  "total_triggers_fired (co_state (co_note_activity c now)) = total_triggers_fired (co_state c)"
  by (simp add: co_note_activity_def split: option.splits)

lemma total_update_activity:
  "total_triggers_fired (co_state c)
     \<le> total_triggers_fired (co_state (fst (snd (update_activity c now t msg ins))))"
proof -
  have "total_triggers_fired (co_state (co_note_activity c now))
     \<le> total_triggers_fired (co_state (fst (snd (update_activity c now t msg ins))))"
    unfolding update_activity_def Let_def
    using total_co_check_context [of "co_note_activity c now"]
    by (auto simp: total_log_trigger split: option.splits prod.splits sum.splits)
  then show ?thesis by (simp add: total_co_note_activity)
qed

lemma total_coordination_turn:
  "total_triggers_fired (co_state c)
     \<le> total_triggers_fired (co_state (fst (coordination_turn c now now2 ins)))"
  by (auto simp: coordination_turn_def Let_def total_log_trigger
      split: option.splits prod.splits sum.splits)

lemma total_stop:
  "total_triggers_fired (co_state (stop_unified_monitoring c)) = total_triggers_fired (co_state c)"
  by (simp add: stop_unified_monitoring_def stop_coordination_thread_def Let_def
      split: option.splits)

lemma fired_coordinator_total: "total_triggers_fired (co_state fired_coordinator) = 4"
  by (simp add: fired_coordinator_def co_init_def co_default_state_def)

text \<open>
  Claim C6, as stated: no operation other than a reset lowers \<open>total_triggers_fired\<close>,
  starting unified monitoring included. \<open>start_unified_monitoring\<close> sets the count to 0:
  from a coordinator that has fired 4 triggers the count goes to 0.
\<close>

theorem start_resets_total_counterexample:
  "total_triggers_fired (co_state fired_coordinator) = 4
   \<and> total_triggers_fired (co_state (fst (co_run fired_coordinator 18000 [] (OpStart None)))) = 0"
  by (simp add: fired_coordinator_total start_unified_monitoring_def Let_def split: prod.splits)

text \<open>
  Claim C6, amended: \<open>total_triggers_fired\<close> never decreases across an operation of the
  coordinator other than \<open>reset_all_monitoring\<close> and \<open>start_unified_monitoring\<close>:
  \<open>update_activity\<close>, \<open>_log_trigger\<close>, a turn of the coordination
  loop, \<open>get_unified_status\<close> and \<open>stop_unified_monitoring\<close> leave it as it was or raise it.
\<close>

theorem total_triggers_monotone:
  assumes "\<forall>sid. op \<noteq> OpStart sid" and "op \<noteq> OpReset"
  shows "total_triggers_fired (co_state c)
           \<le> total_triggers_fired (co_state (fst (co_run c now ins op)))"
proof (cases op)
  case (OpUpdateActivity t msg)
  then show ?thesis using total_update_activity [of c now t msg ins] by simp
next
  case (OpCoordinationTurn now2)
  then show ?thesis using total_coordination_turn [of c now now2 ins] by simp
qed (use assms in \<open>simp_all add: total_log_trigger total_stop\<close>)

theorem total_triggers_monotone_witness:
  "(\<forall>sid. OpLogTrigger ''code_yellow'' [(''success'', PBool True)] \<noteq> OpStart sid)
   \<and> OpLogTrigger ''code_yellow'' [(''success'', PBool True)] \<noteq> OpReset
   \<and> total_triggers_fired (co_state fired_coordinator) = 4
   \<and> total_triggers_fired (co_state fired_coordinator)
       \<le> total_triggers_fired (co_state (fst (co_run fired_coordinator 18000 []
            (OpLogTrigger ''code_yellow'' [(''success'', PBool True)]))))"
proof -
  have a: "\<forall>sid. OpLogTrigger ''code_yellow'' [(''success'', PBool True)] \<noteq> OpStart sid"
    by simp
  have b: "OpLogTrigger ''code_yellow'' [(''success'', PBool True)] \<noteq> OpReset"
    by simp
  from total_triggers_monotone [OF a b, of fired_coordinator 18000 "[]"] a b
    fired_coordinator_total
  show ?thesis by blast
qed

end
